theory Spec2Isabelle
  imports Complex_Main "HOL-Library.Char_ord" "HOL-Library.List_Lexorder"
begin

section \<open>JavaScript values\<close>

text \<open>
  The scalar values the handlers read from the query string and from the stored JSON:
  \<^verbatim>\<open>undefined\<close>, \<^verbatim>\<open>null\<close>, a number and a string. Numbers are exact rationals (see
  \<^verbatim>\<open>Number(v)\<close> below for where that departs from doubles); \<^verbatim>\<open>NaN\<close> and the infinities,
  which JSON cannot store, appear only as results of \<^verbatim>\<open>Number(v)\<close>. Strings are ASCII.
\<close>

datatype jsval = JUndefined | JNull | JNum rat | JStr string

text \<open>\<^verbatim>\<open>!v\<close> is \<open>\<not> truthy v\<close>.\<close>

definition truthy :: "jsval \<Rightarrow> bool" where
  "truthy v = (case v of JUndefined \<Rightarrow> False | JNull \<Rightarrow> False
     | JNum r \<Rightarrow> r \<noteq> 0 | JStr s \<Rightarrow> s \<noteq> [])"

text \<open>\<^verbatim>\<open>v ?? null\<close>\<close>

definition orNull :: "jsval \<Rightarrow> jsval" where
  "orNull v = (case v of JUndefined \<Rightarrow> JNull | _ \<Rightarrow> v)"

text \<open>A natural number inside a template literal: its decimal digits.\<close>

definition digitChar :: "nat \<Rightarrow> char" where
  "digitChar d = ''0123456789'' ! d"

fun showNat :: "nat \<Rightarrow> string" where
  "showNat n = (if n < 10 then [digitChar n] else showNat (n div 10) @ [digitChar (n mod 10)])"

declare showNat.simps [simp del]

section \<open>Rounds, games and the score\<close>

text \<open>
  A game slot \<^verbatim>\<open>{ game, result, turn }\<close>, the opponent's deck \<^verbatim>\<open>{ p1, p2 }\<close> and a round
  \<^verbatim>\<open>{ round_number, opponent_deck, games, special }\<close>. A field that is missing from the
  object is \<open>JUndefined\<close>. The deck is an object, or \<open>None\<close> when it is missing or
  falsy; the games are an array, or \<open>None\<close> when the field is missing or null.
\<close>

record Game =
  game :: jsval
  result :: jsval
  turn :: jsval

record Deck =
  p1 :: jsval
  p2 :: jsval

record Round =
  round_number :: jsval
  opponent_deck :: "Deck option"
  games :: "Game list option"
  special :: jsval

record Score =
  wins :: nat
  losses :: nat
  ties :: nat
  score_text :: string

text \<open>\<^verbatim>\<open>Array.isArray(x) ? x : []\<close>, for a value that is \<open>None\<close> when it is not an array.\<close>

definition arrayOr :: "'a list option \<Rightarrow> 'a list" where
  "arrayOr x = (case x of Some xs \<Rightarrow> xs | None \<Rightarrow> [])"

subsection \<open>computeScore\<close>

text \<open>
  The inner loop of \<^verbatim>\<open>computeScore\<close> over the games of one round, on the state
  \<open>(w, l, hasAny)\<close>:
  \<^verbatim>\<open>
    for (const g of games) {
      if (!g?.result) continue;
      hasAny = true;
      if (g.result === "W") w++;
      if (g.result === "L") l++;
    }
  \<close>
\<close>

fun gamesLoop :: "Game list \<Rightarrow> nat \<times> nat \<times> bool \<Rightarrow> nat \<times> nat \<times> bool" where
  "gamesLoop [] acc = acc"
| "gamesLoop (g # gs) (w, l, hasAny) =
     (if \<not> truthy (result g) then gamesLoop gs (w, l, hasAny)
      else gamesLoop gs
        (if result g = JStr ''W'' then w + 1 else w,
         if result g = JStr ''L'' then l + 1 else l,
         True))"

text \<open>The outer loop over the rounds, on the counters \<^verbatim>\<open>wins\<close>, \<^verbatim>\<open>losses\<close> and \<^verbatim>\<open>ties\<close>.\<close>

fun roundsLoop :: "Round list \<Rightarrow> nat \<times> nat \<times> nat \<Rightarrow> nat \<times> nat \<times> nat" where
  "roundsLoop [] acc = acc"
| "roundsLoop (r # rs) (nwins, nlosses, nties) =
     (let sp = orNull (special r) in
      if sp = JStr ''BYE'' \<or> sp = JStr ''NO_SHOW'' then roundsLoop rs (nwins + 1, nlosses, nties)
      else if sp = JStr ''ID'' then roundsLoop rs (nwins, nlosses, nties + 1)
      else
        (case gamesLoop (arrayOr (games r)) (0, 0, False) of
          (w, l, hasAny) \<Rightarrow>
            if \<not> hasAny then roundsLoop rs (nwins, nlosses, nties)
            else if w > l then roundsLoop rs (nwins + 1, nlosses, nties)
            else if l > w then roundsLoop rs (nwins, nlosses + 1, nties)
            else roundsLoop rs (nwins, nlosses, nties + 1)))"

definition computeScore :: "Round list option \<Rightarrow> Score" where
  "computeScore rounds =
     (case roundsLoop (arrayOr rounds) (0, 0, 0) of
       (nwins, nlosses, nties) \<Rightarrow>
         \<lparr>wins = nwins, losses = nlosses, ties = nties,
          score_text = showNat nwins @ ''-'' @ showNat nlosses @ ''-'' @ showNat nties\<rparr>)"

subsection \<open>sanitizeRounds\<close>

definition placeholderGames :: "Game list" where
  "placeholderGames =
     [\<lparr>game = JNum 1, result = JNull, turn = JNull\<rparr>,
      \<lparr>game = JNum 2, result = JNull, turn = JNull\<rparr>,
      \<lparr>game = JNum 3, result = JNull, turn = JNull\<rparr>]"

definition emptyDeck :: Deck where
  "emptyDeck = \<lparr>p1 = JNull, p2 = JNull\<rparr>"

text \<open>The function mapped over the rounds by \<^verbatim>\<open>sanitizeRounds\<close>.\<close>

definition sanitizeRound :: "Round \<Rightarrow> Round" where
  "sanitizeRound r =
     (let round1 = r\<lparr>opponent_deck :=
            (case opponent_deck r of Some d \<Rightarrow> Some d | None \<Rightarrow> Some emptyDeck)\<rparr>
      in if special round1 = JStr ''BYE'' \<or> special round1 = JStr ''NO_SHOW''
            \<or> special round1 = JStr ''ID''
         then round1\<lparr>games := Some placeholderGames\<rparr>
         else round1)"

definition sanitizeRounds :: "Round list option \<Rightarrow> Round list" where
  "sanitizeRounds rounds = map sanitizeRound (arrayOr rounds)"

section \<open>Domain value normalizers\<close>

subsection \<open>Upper case and the three enumerations\<close>

definition lowerLetters :: string where
  "lowerLetters = ''abcdefghijklmnopqrstuvwxyz''"

definition upperLetters :: string where
  "upperLetters = ''ABCDEFGHIJKLMNOPQRSTUVWXYZ''"

definition toUpperChar :: "char \<Rightarrow> char" where
  "toUpperChar c = (case map_of (zip lowerLetters upperLetters) c of Some u \<Rightarrow> u | None \<Rightarrow> c)"

definition toUpperCase :: "string \<Rightarrow> string" where
  "toUpperCase s = map toUpperChar s"

text \<open>
  \<^verbatim>\<open>String(v).toUpperCase()\<close>. The text of a number is made of digits, a sign, a dot and
  an exponent letter, or is \<^verbatim>\<open>Infinity\<close> or \<^verbatim>\<open>NaN\<close>; it is not rendered here (\<open>None\<close>),
  and the normalizers, which compare the upper case with names that no number's text
  can spell, answer \<^verbatim>\<open>undefined\<close> for it.
\<close>

definition upperOf :: "jsval \<Rightarrow> string option" where
  "upperOf v = (case v of JUndefined \<Rightarrow> Some ''UNDEFINED'' | JNull \<Rightarrow> Some ''NULL''
     | JNum r \<Rightarrow> None | JStr s \<Rightarrow> Some (toUpperCase s))"

definition normalizeResult :: "jsval \<Rightarrow> jsval" where
  "normalizeResult v =
     (if v = JUndefined then JUndefined
      else if v = JNull \<or> v = JStr '''' \<or> v = JStr ''null'' then JNull
      else (case upperOf v of
          Some up \<Rightarrow> if up = ''W'' \<or> up = ''L'' \<or> up = ''T'' then JStr up else JUndefined
        | None \<Rightarrow> JUndefined))"

definition normalizeTurn :: "jsval \<Rightarrow> jsval" where
  "normalizeTurn v =
     (if v = JUndefined then JUndefined
      else if v = JNull \<or> v = JStr '''' \<or> v = JStr ''null'' then JNull
      else (case upperOf v of
          Some up \<Rightarrow> if up = ''FIRST'' \<or> up = ''SECOND'' then JStr up else JUndefined
        | None \<Rightarrow> JUndefined))"

definition normalizeSpecial :: "jsval \<Rightarrow> jsval" where
  "normalizeSpecial v =
     (if v = JUndefined then JUndefined
      else if v = JNull \<or> v = JStr '''' \<or> v = JStr ''null'' then JNull
      else (case upperOf v of
          Some up \<Rightarrow>
            if up = ''ID'' \<or> up = ''NO_SHOW'' \<or> up = ''BYE'' then JStr up else JUndefined
        | None \<Rightarrow> JUndefined))"

subsection \<open>Number(v) and toIntOrNull\<close>

text \<open>
  The result of \<^verbatim>\<open>Number(v)\<close>. On a string it follows ECMAScript's StringToNumber: white
  space is trimmed, the empty string is 0, then either a binary, octal or hexadecimal
  integer literal or a signed decimal literal (\<^verbatim>\<open>Infinity\<close>, digits with an optional
  fraction and exponent); anything else is \<^verbatim>\<open>NaN\<close>. The value is the literal's exact
  mathematical value, but for the two ends of the range of a double: it is an infinity
  from \<^verbatim>\<open>(2^54 - 1) * 2^970\<close> on, the point half way between the greatest double and
  \<^verbatim>\<open>2^1024\<close>, and it is 0 up to \<^verbatim>\<open>2^-1075\<close>, half the least positive double. So the
  model tells as the code does whether a number is finite and whether it is zero, and
  it agrees with the code on every value that a double represents, among them the
  integers up to \<^verbatim>\<open>2^53\<close>; in between, where the code rounds to the nearest double, the
  model keeps the exact value.
\<close>

datatype jsnum = NaN | PosInf | NegInf | Fin rat

definition overflowBound :: rat where
  "overflowBound = of_int ((2 ^ 54 - 1) * 2 ^ 970)"

definition underflowBound :: rat where
  "underflowBound = 1 / of_int (2 ^ 1075)"

definition doubleRange :: "rat \<Rightarrow> jsnum" where
  "doubleRange r =
     (if overflowBound \<le> r then PosInf
      else if r \<le> - overflowBound then NegInf
      else if - underflowBound \<le> r \<and> r \<le> underflowBound then Fin 0
      else Fin r)"

definition isWhiteSpace :: "char \<Rightarrow> bool" where
  "isWhiteSpace c = (c \<in> set [CHR 0x09, CHR 0x0A, CHR 0x0B, CHR 0x0C, CHR 0x0D, CHR 0x20])"

definition trim :: "string \<Rightarrow> string" where
  "trim s = rev (dropWhile isWhiteSpace (rev (dropWhile isWhiteSpace s)))"

definition digitOf :: "char \<Rightarrow> nat option" where
  "digitOf c = map_of (zip ''0123456789abcdefABCDEF''
     [0, 1, 2, 3, 4, 5, 6, 7, 8, 9, 10, 11, 12, 13, 14, 15, 10, 11, 12, 13, 14, 15]) c"

definition isDigit :: "char \<Rightarrow> bool" where
  "isDigit c = (c \<in> set ''0123456789'')"

fun digitsVal :: "nat \<Rightarrow> string \<Rightarrow> nat \<Rightarrow> nat option" where
  "digitsVal b [] acc = Some acc"
| "digitsVal b (c # cs) acc =
     (case digitOf c of
        Some d \<Rightarrow> if d < b then digitsVal b cs (acc * b + d) else None
      | None \<Rightarrow> None)"

definition digitsIn :: "nat \<Rightarrow> string \<Rightarrow> nat option" where
  "digitsIn b s = (if s = [] then None else digitsVal b s 0)"

text \<open>The exponent part: empty, or \<^verbatim>\<open>e\<close> or \<^verbatim>\<open>E\<close>, an optional sign and digits.\<close>

definition exponentPart :: "string \<Rightarrow> int option" where
  "exponentPart s =
     (case s of
        [] \<Rightarrow> Some 0
      | c # r \<Rightarrow>
          if c = CHR ''e'' \<or> c = CHR ''E'' then
            (case r of
               [] \<Rightarrow> None
             | d # ds \<Rightarrow>
                 if d = CHR ''-'' then map_option (\<lambda>n. - int n) (digitsIn 10 ds)
                 else if d = CHR ''+'' then map_option int (digitsIn 10 ds)
                 else map_option int (digitsIn 10 r))
          else None)"

definition scale10 :: "nat \<Rightarrow> int \<Rightarrow> rat" where
  "scale10 n e =
     (if 0 \<le> e then of_int (int n * 10 ^ nat e) else of_int (int n) / of_int (10 ^ nat (- e)))"

definition unsignedDecimal :: "string \<Rightarrow> jsnum" where
  "unsignedDecimal s =
     (if s = ''Infinity'' then PosInf
      else
        let ip = takeWhile isDigit s;
            r1 = dropWhile isDigit s;
            (fp, r2) = (case r1 of
                [] \<Rightarrow> ([], r1)
              | c # rest \<Rightarrow>
                  if c = CHR ''.'' then (takeWhile isDigit rest, dropWhile isDigit rest)
                  else ([], r1))
        in if ip = [] \<and> fp = [] then NaN
           else (case (digitsIn 10 (ip @ fp), exponentPart r2) of
               (Some n, Some e) \<Rightarrow> doubleRange (scale10 n (e - int (length fp)))
             | _ \<Rightarrow> NaN))"

definition negate :: "jsnum \<Rightarrow> jsnum" where
  "negate x = (case x of NaN \<Rightarrow> NaN | PosInf \<Rightarrow> NegInf | NegInf \<Rightarrow> PosInf | Fin r \<Rightarrow> Fin (- r))"

definition radixOf :: "char \<Rightarrow> nat option" where
  "radixOf c = map_of [(CHR ''x'', 16), (CHR ''X'', 16), (CHR ''o'', 8), (CHR ''O'', 8),
     (CHR ''b'', 2), (CHR ''B'', 2)] c"

text \<open>The digits after \<^verbatim>\<open>0x\<close>, \<^verbatim>\<open>0o\<close> or \<^verbatim>\<open>0b\<close>, if the text starts so.\<close>

definition nonDecimal :: "string \<Rightarrow> (nat \<times> string) option" where
  "nonDecimal s =
     (case s of
        c # x # ds \<Rightarrow>
          if c = CHR ''0'' then map_option (\<lambda>b. (b, ds)) (radixOf x) else None
      | _ \<Rightarrow> None)"

definition StringToNumber :: "string \<Rightarrow> jsnum" where
  "StringToNumber s =
     (case trim s of
        [] \<Rightarrow> Fin 0
      | c # r \<Rightarrow>
          if c = CHR ''-'' then negate (unsignedDecimal r)
          else if c = CHR ''+'' then unsignedDecimal r
          else
            (case nonDecimal (c # r) of
               Some (b, ds) \<Rightarrow>
                 (case digitsIn b ds of
                    Some n \<Rightarrow> doubleRange (of_nat n)
                  | None \<Rightarrow> NaN)
             | None \<Rightarrow> unsignedDecimal (c # r)))"

definition Number :: "jsval \<Rightarrow> jsnum" where
  "Number v = (case v of JUndefined \<Rightarrow> NaN | JNull \<Rightarrow> Fin 0 | JNum r \<Rightarrow> Fin r
     | JStr s \<Rightarrow> StringToNumber s)"

text \<open>
  \<^verbatim>\<open>
  function toIntOrNull(v) {
    if (v === undefined || v === null || v === "") return null;
    const n = Number(v);
    return Number.isFinite(n) ? n : null;
  }
  \<close>
\<close>

definition toIntOrNull :: "jsval \<Rightarrow> jsval" where
  "toIntOrNull v =
     (if v = JUndefined \<or> v = JNull \<or> v = JStr '''' then JNull
      else (case Number v of Fin n \<Rightarrow> JNum n | _ \<Rightarrow> JNull))"

section \<open>The tournaments table\<close>

text \<open>
  A row of the table \<^verbatim>\<open>tournaments\<close>. The column \<^verbatim>\<open>id\<close> is \<open>t_id\<close> and the column
  \<^verbatim>\<open>result\<close> is \<open>final_result\<close>. The \<^verbatim>\<open>score\<close> column holds either the empty object
  \<^verbatim>\<open>{}\<close> or a score. The \<^verbatim>\<open>rounds\<close> column holds an array of rounds, or a value that
  is no array: a falsy one (null) or a truthy one (an object, a text).
\<close>

datatype score_col = EmptyObject | ScoreOf Score

datatype rounds_col = RoundsArray "Round list" | RoundsFalsy | RoundsOther

text \<open>
  The column as the two handlers read it. \<open>arrayOpt\<close> is what \<^verbatim>\<open>Array.isArray\<close> lets
  through, so that \<^verbatim>\<open>Array.isArray(x) ? x : []\<close> is \<open>arrayOr (arrayOpt x)\<close>. \<open>orEmpty\<close> is
  \<^verbatim>\<open>x || []\<close>: a truthy value that is no array comes through as it is (\<open>None\<close>), and the
  array method called on it next throws a \<^verbatim>\<open>TypeError\<close>.
\<close>

definition arrayOpt :: "rounds_col \<Rightarrow> Round list option" where
  "arrayOpt x = (case x of RoundsArray rs \<Rightarrow> Some rs | _ \<Rightarrow> None)"

definition orEmpty :: "rounds_col \<Rightarrow> Round list option" where
  "orEmpty x = (case x of RoundsArray rs \<Rightarrow> Some rs | RoundsFalsy \<Rightarrow> Some [] | RoundsOther \<Rightarrow> None)"

record Tournament =
  t_id :: string
  customer_id :: jsval
  tournament_name :: jsval
  tournament_date :: jsval
  format :: jsval
  tournament_type :: jsval
  final_result :: jsval
  rounds :: rounds_col
  score :: score_col

type_synonym store = "Tournament list"

text \<open>
  The request's query string, an object with string values and distinct keys:
  \<^verbatim>\<open>q.k\<close> is \<open>param q k\<close>, \<^verbatim>\<open>undefined\<close> for a key that is not there.
\<close>

type_synonym query = "(string \<times> string) list"

definition param :: "query \<Rightarrow> string \<Rightarrow> jsval" where
  "param q k = (case map_of q k of Some s \<Rightarrow> JStr s | None \<Rightarrow> JUndefined)"

text \<open>\<^verbatim>\<open>v ?? d\<close>\<close>

definition orElse :: "jsval \<Rightarrow> jsval \<Rightarrow> jsval" where
  "orElse v d = (if v = JUndefined \<or> v = JNull then d else v)"

subsection \<open>The store's operations\<close>

text \<open>
  The filter \<^verbatim>\<open>.eq("id", id).eq("customer_id", customerId)\<close>, and \<^verbatim>\<open>.single()\<close>, which
  fails unless exactly one row comes back. An update that is asked for a single row and
  does not match exactly one fails and leaves the table as it was. Failures of the
  connection to the store are not modelled: a store call fails only for the rows it finds.
\<close>

definition owned :: "jsval \<Rightarrow> jsval \<Rightarrow> Tournament \<Rightarrow> bool" where
  "owned customerId tid t = (JStr (t_id t) = tid \<and> customer_id t = customerId)"

definition single :: "'a list \<Rightarrow> 'a option" where
  "single rows = (case rows of [x] \<Rightarrow> Some x | _ \<Rightarrow> None)"

definition selectOwned :: "store \<Rightarrow> jsval \<Rightarrow> jsval \<Rightarrow> Tournament option" where
  "selectOwned db customerId tid = single (filter (owned customerId tid) db)"

definition updateOwned ::
  "store \<Rightarrow> jsval \<Rightarrow> jsval \<Rightarrow> (Tournament \<Rightarrow> Tournament) \<Rightarrow> Tournament option \<times> store" where
  "updateOwned db customerId tid f =
     (case single (filter (owned customerId tid) db) of
        None \<Rightarrow> (None, db)
      | Some t \<Rightarrow> (Some (f t), map (\<lambda>r. if owned customerId tid r then f r else r) db))"

text \<open>
  The result object of an action: \<^verbatim>\<open>{ ok: true, tournament }\<close>, or
  \<^verbatim>\<open>{ ok: false, error }\<close> (the fields \<^verbatim>\<open>details\<close> and \<^verbatim>\<open>fields_required\<close> that some
  errors carry are left out), or a \<^verbatim>\<open>TypeError\<close> thrown out of the function.
\<close>

datatype opres = Ok Tournament | Fail string | Threw

fun findIndex :: "('a \<Rightarrow> bool) \<Rightarrow> 'a list \<Rightarrow> nat option" where
  "findIndex P [] = None"
| "findIndex P (x # xs) = (if P x then Some 0 else map_option Suc (findIndex P xs))"

text \<open>The round that both \<^verbatim>\<open>addRound\<close> functions push.\<close>

definition newRound :: "rat \<Rightarrow> Round" where
  "newRound n = \<lparr>round_number = JNum n, opponent_deck = Some emptyDeck,
     games = Some placeholderGames, special = JNull\<rparr>"

section \<open>The handler with the score (part 002)\<close>

definition getTournamentOwned_002 :: "store \<Rightarrow> jsval \<Rightarrow> jsval \<Rightarrow> opres" where
  "getTournamentOwned_002 db customerId tid =
     (case selectOwned db customerId tid of
        None \<Rightarrow> Fail ''Tournament not found''
      | Some t \<Rightarrow> Ok t)"

text \<open>
  \<^verbatim>\<open>
  async function persistRounds(customerId, id, rounds) {
    const clean = sanitizeRounds(rounds);
    const score = computeScore(clean);
    const { data, error } = await supabase.from("tournaments")
      .update({ rounds: clean, score }).eq("id", id).eq("customer_id", customerId)
      .select("*").single();
    if (error) return { ok: false, error: "Failed to save rounds" };
    return { ok: true, tournament: data };
  }
  \<close>
\<close>

definition persistRounds :: "store \<Rightarrow> jsval \<Rightarrow> jsval \<Rightarrow> Round list \<Rightarrow> opres \<times> store" where
  "persistRounds db customerId tid rs =
     (let clean = sanitizeRounds (Some rs);
          sc = computeScore (Some clean)
      in case updateOwned db customerId tid (\<lambda>t. t\<lparr>rounds := RoundsArray clean, score := ScoreOf sc\<rparr>) of
           (None, db') \<Rightarrow> (Fail ''Failed to save rounds'', db')
         | (Some t, db') \<Rightarrow> (Ok t, db'))"

text \<open>
  \<^verbatim>\<open>createTournament\<close> of part 002; \<open>newId\<close> is the identifier the store gives the
  inserted row.
  \<^verbatim>\<open>
  if (!q.tournament_name || !q.tournament_date) {
    return { ok: false, error: "Missing required fields" };
  }
  ... .insert([{ customer_id: customerId, tournament_name: q.tournament_name,
    tournament_date: q.tournament_date, format: q.format ?? null,
    tournament_type: q.tournament_type ?? null, result: q.result ?? "SinTop",
    rounds: [], score: computeScore([]) }])
  \<close>
\<close>

definition createTournament_002 :: "store \<Rightarrow> string \<Rightarrow> jsval \<Rightarrow> query \<Rightarrow> opres \<times> store" where
  "createTournament_002 db newId customerId q =
     (if \<not> (truthy (param q ''tournament_name'') \<and> truthy (param q ''tournament_date''))
      then (Fail ''Missing required fields'', db)
      else
        let row = \<lparr>t_id = newId, customer_id = customerId,
              tournament_name = param q ''tournament_name'',
              tournament_date = param q ''tournament_date'',
              format = orElse (param q ''format'') JNull,
              tournament_type = orElse (param q ''tournament_type'') JNull,
              final_result = orElse (param q ''result'') (JStr ''SinTop''),
              rounds = RoundsArray [],
              score = ScoreOf (computeScore (Some []))\<rparr>
        in (Ok row, db @ [row]))"

text \<open>
  \<^verbatim>\<open>
  const rounds = got.tournament.rounds || [];
  const nextNumber = rounds.length + 1;
  rounds.push({ round_number: nextNumber, ... });
  return await persistRounds(customerId, id, rounds);
  \<close>
  On a truthy value that is no array \<^verbatim>\<open>rounds.push\<close> throws.
\<close>

definition addRound_002 :: "store \<Rightarrow> jsval \<Rightarrow> jsval \<Rightarrow> opres \<times> store" where
  "addRound_002 db customerId tid =
     (case getTournamentOwned_002 db customerId tid of
        Ok t \<Rightarrow>
          (case orEmpty (rounds t) of
             None \<Rightarrow> (Threw, db)
           | Some rs \<Rightarrow>
               let nextNumber = length rs + 1
               in persistRounds db customerId tid (rs @ [newRound (of_nat nextNumber)]))
      | got \<Rightarrow> (got, db))"

text \<open>
  The assignments of \<^verbatim>\<open>updateRound\<close> (part 002) to the round \<^verbatim>\<open>r\<close>, in the source's order.
  \<open>None\<close> is the \<^verbatim>\<open>TypeError\<close> of an assignment through a missing \<^verbatim>\<open>opponent_deck\<close> or a
  missing \<^verbatim>\<open>games[0]\<close>.
  \<^verbatim>\<open>
  if (q.op_p1 !== undefined) r.opponent_deck.p1 = toIntOrNull(q.op_p1);
  if (q.op_p2 !== undefined) r.opponent_deck.p2 = toIntOrNull(q.op_p2);
  if (q.special !== undefined) r.special = normalizeSpecial(q.special);
  const g1 = normalizeResult(q.g1);
  if (g1 !== undefined) r.games[0].result = g1;
  \<close>
\<close>

definition setDeck_002 :: "query \<Rightarrow> string \<Rightarrow> (Deck \<Rightarrow> jsval \<Rightarrow> Deck) \<Rightarrow> Round \<Rightarrow> Round option" where
  "setDeck_002 q k upd r =
     (if param q k \<noteq> JUndefined then
        (case opponent_deck r of
           None \<Rightarrow> None
         | Some d \<Rightarrow> Some (r\<lparr>opponent_deck := Some (upd d (toIntOrNull (param q k)))\<rparr>))
      else Some r)"

definition setSpecial_002 :: "query \<Rightarrow> Round \<Rightarrow> Round" where
  "setSpecial_002 q r =
     (if param q ''special'' \<noteq> JUndefined then r\<lparr>special := normalizeSpecial (param q ''special'')\<rparr>
      else r)"

definition setG1_002 :: "query \<Rightarrow> Round \<Rightarrow> Round option" where
  "setG1_002 q r =
     (let g1 = normalizeResult (param q ''g1'') in
      if g1 \<noteq> JUndefined then
        (case games r of
           Some (g # gs) \<Rightarrow> Some (r\<lparr>games := Some (g\<lparr>result := g1\<rparr> # gs)\<rparr>)
         | _ \<Rightarrow> None)
      else Some r)"

definition patchRound_002 :: "query \<Rightarrow> Round \<Rightarrow> Round option" where
  "patchRound_002 q r =
     Option.bind (setDeck_002 q ''op_p1'' (\<lambda>d v. d\<lparr>p1 := v\<rparr>) r) (\<lambda>r1.
     Option.bind (setDeck_002 q ''op_p2'' (\<lambda>d v. d\<lparr>p2 := v\<rparr>) r1) (\<lambda>r2.
     setG1_002 q (setSpecial_002 q r2)))"

definition updateRound_002 :: "store \<Rightarrow> jsval \<Rightarrow> jsval \<Rightarrow> query \<Rightarrow> opres \<times> store" where
  "updateRound_002 db customerId tid q =
     (let rn = toIntOrNull (param q ''round_number'') in
      if \<not> truthy rn then (Fail ''Invalid round_number'', db)
      else
        (case getTournamentOwned_002 db customerId tid of
           Ok t \<Rightarrow>
             (case orEmpty (rounds t) of
                None \<Rightarrow> (Threw, db)
              | Some rs \<Rightarrow>
                  (case findIndex (\<lambda>r. round_number r = rn) rs of
                     None \<Rightarrow> (Fail ''Round not found'', db)
                   | Some idx \<Rightarrow>
                       (case patchRound_002 q (rs ! idx) of
                          None \<Rightarrow> (Threw, db)
                        | Some r \<Rightarrow> persistRounds db customerId tid (rs[idx := r]))))
         | got \<Rightarrow> (got, db)))"

definition finalResults :: "string list" where
  "finalResults = [''Ganador'', ''Finalista'', ''Top4'', ''Top8'', ''Top16'', ''Top32'',
     ''Top64'', ''Top128'', ''Top256'', ''Top512'', ''Top1024'', ''Droppeado'', ''SinTop'']"

definition setFinalResult :: "store \<Rightarrow> jsval \<Rightarrow> jsval \<Rightarrow> jsval \<Rightarrow> opres \<times> store" where
  "setFinalResult db customerId tid res =
     (if res \<notin> JStr ` set finalResults then (Fail ''Invalid final result'', db)
      else
        (case updateOwned db customerId tid (\<lambda>t. t\<lparr>final_result := res\<rparr>) of
           (None, db') \<Rightarrow> (Fail ''Failed to update result'', db')
         | (Some t, db') \<Rightarrow> (Ok t, db')))"

section \<open>The handler with the validated patch (part 003)\<close>

definition getTournamentOwned_003 :: "store \<Rightarrow> jsval \<Rightarrow> jsval \<Rightarrow> opres" where
  "getTournamentOwned_003 db customerId tid =
     (if \<not> truthy tid then Fail ''Missing tournament id''
      else
        (case selectOwned db customerId tid of
           None \<Rightarrow> Fail ''Tournament not found''
         | Some t \<Rightarrow> Ok t))"

text \<open>
  \<^verbatim>\<open>
  async function saveRounds(customerId, tournamentId, rounds) {
    const { data, error } = await supabase.from("tournaments")
      .update({ rounds }).eq("id", tournamentId).eq("customer_id", customerId)
      .select("*").single();
    if (error) return { ok: false, error: "Failed to save rounds", details: error.message };
    return { ok: true, tournament: data };
  }
  \<close>
\<close>

definition saveRounds :: "store \<Rightarrow> jsval \<Rightarrow> jsval \<Rightarrow> Round list \<Rightarrow> opres \<times> store" where
  "saveRounds db customerId tid rs =
     (case updateOwned db customerId tid (\<lambda>t. t\<lparr>rounds := RoundsArray rs\<rparr>) of
        (None, db') \<Rightarrow> (Fail ''Failed to save rounds'', db')
      | (Some t, db') \<Rightarrow> (Ok t, db'))"

text \<open>
  \<^verbatim>\<open>createTournament\<close> as part 003, part 001 and \<^verbatim>\<open>src/api/proxy.js\<close> have it: the
  fields that the query leaves out are null, the rounds are empty and the score is the
  empty object.
\<close>

definition createTournament_003 :: "store \<Rightarrow> string \<Rightarrow> jsval \<Rightarrow> query \<Rightarrow> opres \<times> store" where
  "createTournament_003 db newId customerId q =
     (if \<not> (truthy (param q ''tournament_name'') \<and> truthy (param q ''tournament_date''))
      then (Fail ''Missing required fields'', db)
      else
        let row = \<lparr>t_id = newId, customer_id = customerId,
              tournament_name = param q ''tournament_name'',
              tournament_date = param q ''tournament_date'',
              format = orNull (param q ''format''),
              tournament_type = orNull (param q ''tournament_type''),
              final_result = orNull (param q ''result''),
              rounds = RoundsArray [],
              score = EmptyObject\<rparr>
        in (Ok row, db @ [row]))"

text \<open>
  \<^verbatim>\<open>
  const maxRound = rounds.reduce((m, r) => {
    const n = Number(r?.round_number);
    return Number.isFinite(n) ? Math.max(m, n) : m;
  }, 0);
  \<close>
\<close>

definition maxRound :: "Round list \<Rightarrow> rat" where
  "maxRound rs =
     foldl (\<lambda>m r. case Number (round_number r) of Fin n \<Rightarrow> max m n | _ \<Rightarrow> m) 0 rs"

definition addRound_003 :: "store \<Rightarrow> jsval \<Rightarrow> jsval \<Rightarrow> opres \<times> store" where
  "addRound_003 db customerId tid =
     (case getTournamentOwned_003 db customerId tid of
        Ok t \<Rightarrow>
          let rs = arrayOr (arrayOpt (rounds t));
              newRoundNumber = maxRound rs + 1
          in saveRounds db customerId tid (rs @ [newRound newRoundNumber])
      | got \<Rightarrow> (got, db))"

text \<open>
  The patch of \<^verbatim>\<open>updateRound\<close> (part 003). A field of the query that is present and
  normalizes to \<^verbatim>\<open>undefined\<close> is invalid and ends the call with an error; a field that
  is present and valid is assigned; a field that is absent is skipped.
\<close>

definition invalid :: "query \<Rightarrow> string \<Rightarrow> (jsval \<Rightarrow> jsval) \<Rightarrow> bool" where
  "invalid q k normalizer = (param q k \<noteq> JUndefined \<and> normalizer (param q k) = JUndefined)"

definition applyField :: "query \<Rightarrow> string \<Rightarrow> (jsval \<Rightarrow> jsval) \<Rightarrow> jsval \<Rightarrow> jsval" where
  "applyField q k normalizer old =
     (if param q k \<noteq> JUndefined then normalizer (param q k) else old)"

text \<open>
  \<^verbatim>\<open>
  if (query.op_p1 !== undefined || query.op_p2 !== undefined) {
    round.opponent_deck = round.opponent_deck || { p1: null, p2: null };
    if (query.op_p1 !== undefined) round.opponent_deck.p1 = opP1;
    if (query.op_p2 !== undefined) round.opponent_deck.p2 = opP2;
  }
  \<close>
\<close>

definition patchDeck_003 :: "query \<Rightarrow> Round \<Rightarrow> Round" where
  "patchDeck_003 q r =
     (if param q ''op_p1'' \<noteq> JUndefined \<or> param q ''op_p2'' \<noteq> JUndefined then
        let d = (case opponent_deck r of Some d \<Rightarrow> d | None \<Rightarrow> emptyDeck)
        in r\<lparr>opponent_deck := Some
             (d\<lparr>p1 := applyField q ''op_p1'' toIntOrNull (p1 d),
                p2 := applyField q ''op_p2'' toIntOrNull (p2 d)\<rparr>)\<rparr>
      else r)"

text \<open>
  \<^verbatim>\<open>byNum.get(n) || { game: n, result: null, turn: null }\<close>, where \<^verbatim>\<open>byNum\<close> maps
  \<^verbatim>\<open>Number(g.game)\<close> to \<^verbatim>\<open>g\<close>: of two games with one number the map keeps the later.
\<close>

definition byNum :: "Game list \<Rightarrow> rat \<Rightarrow> Game" where
  "byNum gs n =
     (case find (\<lambda>g. Number (game g) = Fin n) (rev gs) of
        Some g \<Rightarrow> g
      | None \<Rightarrow> \<lparr>game = JNum n, result = JNull, turn = JNull\<rparr>)"

definition patchGame_003 :: "query \<Rightarrow> string \<Rightarrow> string \<Rightarrow> Game \<Rightarrow> Game" where
  "patchGame_003 q kr kt g =
     g\<lparr>result := applyField q kr normalizeResult (result g),
       turn := applyField q kt normalizeTurn (turn g)\<rparr>"

definition patchRound_003 :: "query \<Rightarrow> Round \<Rightarrow> string + Round" where
  "patchRound_003 q r =
     (let round1 = patchDeck_003 q r in
      if invalid q ''special'' normalizeSpecial then Inl ''Invalid special value''
      else
        let round2 = round1\<lparr>special := applyField q ''special'' normalizeSpecial (special round1)\<rparr>;
            gs = (case games round2 of Some gs \<Rightarrow> gs | None \<Rightarrow> placeholderGames)
        in if invalid q ''g1'' normalizeResult then Inl ''Invalid g1 value''
           else if invalid q ''g2'' normalizeResult then Inl ''Invalid g2 value''
           else if invalid q ''g3'' normalizeResult then Inl ''Invalid g3 value''
           else if invalid q ''g1_turn'' normalizeTurn then Inl ''Invalid g1_turn value''
           else if invalid q ''g2_turn'' normalizeTurn then Inl ''Invalid g2_turn value''
           else if invalid q ''g3_turn'' normalizeTurn then Inl ''Invalid g3_turn value''
           else Inr (round2\<lparr>games := Some
               [patchGame_003 q ''g1'' ''g1_turn'' (byNum gs 1),
                patchGame_003 q ''g2'' ''g2_turn'' (byNum gs 2),
                patchGame_003 q ''g3'' ''g3_turn'' (byNum gs 3)]\<rparr>))"

text \<open>\<^verbatim>\<open>Number(r?.round_number) === roundNumber\<close>\<close>

definition numberIs :: "jsval \<Rightarrow> jsval \<Rightarrow> bool" where
  "numberIs v roundNumber = (case roundNumber of JNum x \<Rightarrow> Number v = Fin x | _ \<Rightarrow> False)"

definition updateRound_003 :: "store \<Rightarrow> jsval \<Rightarrow> jsval \<Rightarrow> query \<Rightarrow> opres \<times> store" where
  "updateRound_003 db customerId tid q =
     (let roundNumber = toIntOrNull (param q ''round_number'') in
      if \<not> truthy tid then (Fail ''Missing tournament id'', db)
      else if \<not> truthy roundNumber then (Fail ''Missing or invalid round_number'', db)
      else
        (case getTournamentOwned_003 db customerId tid of
           Ok t \<Rightarrow>
             let rs = arrayOr (arrayOpt (rounds t)) in
             (case findIndex (\<lambda>r. numberIs (round_number r) roundNumber) rs of
                None \<Rightarrow> (Fail ''Round not found'', db)
              | Some idx \<Rightarrow>
                  (case patchRound_003 q (rs ! idx) of
                     Inl e \<Rightarrow> (Fail e, db)
                   | Inr r \<Rightarrow> saveRounds db customerId tid (rs[idx := r])))
         | got \<Rightarrow> (got, db)))"

subsection \<open>Listing and the tournament's own fields\<close>

text \<open>
  The rows of a customer by \<^verbatim>\<open>tournament_date\<close>, latest first. Rows with one date come
  in an order the store chooses; here in the reverse of the table's.
\<close>

definition dateKey :: "Tournament \<Rightarrow> string" where
  "dateKey t = (case tournament_date t of JStr s \<Rightarrow> s | _ \<Rightarrow> [])"

definition listTournaments :: "store \<Rightarrow> jsval \<Rightarrow> Tournament list" where
  "listTournaments db customerId =
     rev (sort_key dateKey (filter (\<lambda>t. customer_id t = customerId) db))"

text \<open>\<^verbatim>\<open>updateTournament\<close> of part 003 and of \<^verbatim>\<open>src/api/proxy.js\<close>.\<close>

definition allowedMeta :: "string list" where
  "allowedMeta = [''tournament_name'', ''tournament_date'', ''format'', ''tournament_type'',
     ''result'']"

definition setMeta :: "query \<Rightarrow> Tournament \<Rightarrow> string \<Rightarrow> Tournament" where
  "setMeta q t k =
     (if k = ''tournament_name'' then t\<lparr>tournament_name := param q k\<rparr>
      else if k = ''tournament_date'' then t\<lparr>tournament_date := param q k\<rparr>
      else if k = ''format'' then t\<lparr>format := param q k\<rparr>
      else if k = ''tournament_type'' then t\<lparr>tournament_type := param q k\<rparr>
      else if k = ''result'' then t\<lparr>final_result := param q k\<rparr>
      else t)"

definition updateTournament :: "store \<Rightarrow> jsval \<Rightarrow> jsval \<Rightarrow> query \<Rightarrow> opres \<times> store" where
  "updateTournament db customerId tid q =
     (if \<not> truthy tid then (Fail ''Missing id'', db)
      else
        let updates = filter (\<lambda>k. param q k \<noteq> JUndefined) allowedMeta in
        if updates = [] then (Fail ''No fields to update'', db)
        else
          (case updateOwned db customerId tid (\<lambda>t. foldl (setMeta q) t updates) of
             (None, db') \<Rightarrow> (Fail ''Update failed'', db')
           | (Some t, db') \<Rightarrow> (Ok t, db')))"

text \<open>\<^verbatim>\<open>getTournament\<close> of \<^verbatim>\<open>src/api/proxy.js\<close>.\<close>

definition getTournament_proxy :: "store \<Rightarrow> jsval \<Rightarrow> jsval \<Rightarrow> opres" where
  "getTournament_proxy db customerId tid =
     (if \<not> truthy tid then Fail ''Missing id''
      else
        (case selectOwned db customerId tid of
           None \<Rightarrow> Fail ''Tournament not found''
         | Some t \<Rightarrow> Ok t))"

section \<open>The request handlers\<close>

text \<open>
  \<open>sign\<close> is the hexadecimal HMAC-SHA-256 of a message under the shared secret
  \<^verbatim>\<open>SHOPIFY_APP_PROXY_SECRET\<close>. The message joins \<^verbatim>\<open>key=value\<close> over the parameters other
  than \<^verbatim>\<open>signature\<close>, in the order of their keys, with nothing in between.
\<close>

definition verifyShopifyProxy :: "(string \<Rightarrow> string) \<Rightarrow> query \<Rightarrow> bool" where
  "verifyShopifyProxy sign q =
     (let signature = param q ''signature'';
          rest = filter (\<lambda>kv. fst kv \<noteq> ''signature'') q
      in if \<not> truthy signature then False
         else
           let message = concat (map (\<lambda>kv. fst kv @ ''='' @ snd kv) (sort_key fst rest))
           in JStr (sign message) = signature)"

text \<open>The request: \<^verbatim>\<open>req.method\<close> is \<open>http_method\<close>, \<^verbatim>\<open>req.query\<close> is \<open>query\<close>.\<close>

record Request =
  http_method :: string
  query :: query

text \<open>
  The JSON bodies: \<^verbatim>\<open>{ ok: false, error: "Invalid Shopify signature" }\<close>,
  \<^verbatim>\<open>{ ok: false, error: "Method not allowed" }\<close>, \<^verbatim>\<open>{ ok: true, logged_in: false }\<close>,
  \<^verbatim>\<open>{ ok: true, logged_in: true, customer_id }\<close>,
  \<^verbatim>\<open>{ ok: true, tournaments }\<close>, the result object of an action,
  \<^verbatim>\<open>{ ok: false, error: "Unknown action", allowed_actions }\<close> (the list is empty where the
  handler sends none) and \<^verbatim>\<open>{ ok: false, error: "Internal error" }\<close>.
\<close>

datatype body =
    InvalidSignature
  | MethodNotAllowed
  | LoggedOut
  | LoggedIn jsval
  | TournamentList "Tournament list"
  | Result opres
  | UnknownAction "string list"
  | InternalError

record Response =
  status :: nat
  body :: body

text \<open>
  The handler of part 002. It has no \<^verbatim>\<open>try\<close>: a \<^verbatim>\<open>TypeError\<close> of \<^verbatim>\<open>updateRound\<close> leaves
  the request without a response (\<open>None\<close>).
\<close>

definition respond :: "opres \<times> store \<Rightarrow> Response option \<times> store" where
  "respond x = (case x of
        (Threw, db) \<Rightarrow> (None, db)
      | (r, db) \<Rightarrow> (Some \<lparr>status = 200, body = Result r\<rparr>, db))"

definition handler_002 ::
  "(string \<Rightarrow> string) \<Rightarrow> string \<Rightarrow> store \<Rightarrow> Request \<Rightarrow> Response option \<times> store" where
  "handler_002 sign newId db req =
     (let q = query req in
      if \<not> verifyShopifyProxy sign q
      then (Some \<lparr>status = 401, body = InvalidSignature\<rparr>, db)
      else
        let customerId = param q ''logged_in_customer_id'';
            action = param q ''action''
        in if \<not> truthy customerId then (Some \<lparr>status = 200, body = LoggedOut\<rparr>, db)
           else if action = JStr ''list_tournaments''
             then (Some \<lparr>status = 200, body = TournamentList (listTournaments db customerId)\<rparr>, db)
           else if action = JStr ''create_tournament''
             then respond (createTournament_002 db newId customerId q)
           else if action = JStr ''add_round''
             then respond (addRound_002 db customerId (param q ''id''))
           else if action = JStr ''update_round''
             then respond (updateRound_002 db customerId (param q ''id'') q)
           else if action = JStr ''set_final_result''
             then respond (setFinalResult db customerId (param q ''id'') (param q ''result''))
           else (Some \<lparr>status = 200, body = UnknownAction []\<rparr>, db))"

text \<open>
  The handlers of part 003 and of \<^verbatim>\<open>src/api/proxy.js\<close> catch what their actions throw
  and answer \<^verbatim>\<open>Internal error\<close> with status 200.
\<close>

definition respondCaught :: "opres \<times> store \<Rightarrow> Response option \<times> store" where
  "respondCaught x = (case x of
        (Threw, db) \<Rightarrow> (Some \<lparr>status = 200, body = InternalError\<rparr>, db)
      | (r, db) \<Rightarrow> (Some \<lparr>status = 200, body = Result r\<rparr>, db))"

definition handler_003 ::
  "(string \<Rightarrow> string) \<Rightarrow> string \<Rightarrow> store \<Rightarrow> Request \<Rightarrow> Response option \<times> store" where
  "handler_003 sign newId db req =
     (let q = query req in
      if \<not> verifyShopifyProxy sign q
      then (Some \<lparr>status = 401, body = InvalidSignature\<rparr>, db)
      else
        let customerId = (if truthy (param q ''logged_in_customer_id'')
              then param q ''logged_in_customer_id'' else JNull);
            action = (if truthy (param q ''action'') then param q ''action'' else JNull)
        in if \<not> truthy customerId then (Some \<lparr>status = 200, body = LoggedOut\<rparr>, db)
           else if action = JStr ''list_tournaments''
             then (Some \<lparr>status = 200, body = TournamentList (listTournaments db customerId)\<rparr>, db)
           else if action = JStr ''create_tournament''
             then respondCaught (createTournament_003 db newId customerId q)
           else if action = JStr ''get_tournament''
             then respondCaught (getTournamentOwned_003 db customerId (param q ''id''), db)
           else if action = JStr ''update_tournament''
             then respondCaught (updateTournament db customerId (param q ''id'') q)
           else if action = JStr ''add_round''
             then respondCaught (addRound_003 db customerId (param q ''id''))
           else if action = JStr ''update_round''
             then respondCaught (updateRound_003 db customerId (param q ''id'') q)
           else (Some \<lparr>status = 200, body = UnknownAction
               [''list_tournaments'', ''create_tournament'', ''get_tournament'',
                ''update_tournament'', ''add_round'', ''update_round'']\<rparr>, db))"

definition handler_proxy ::
  "(string \<Rightarrow> string) \<Rightarrow> string \<Rightarrow> store \<Rightarrow> Request \<Rightarrow> Response option \<times> store" where
  "handler_proxy sign newId db req =
     (let q = query req in
      if \<not> verifyShopifyProxy sign q
      then (Some \<lparr>status = 401, body = InvalidSignature\<rparr>, db)
      else
        let customerId = (if truthy (param q ''logged_in_customer_id'')
              then param q ''logged_in_customer_id'' else JNull);
            action = (if truthy (param q ''action'') then param q ''action'' else JNull)
        in if \<not> truthy customerId then (Some \<lparr>status = 200, body = LoggedOut\<rparr>, db)
           else if action = JStr ''list_tournaments''
             then (Some \<lparr>status = 200, body = TournamentList (listTournaments db customerId)\<rparr>, db)
           else if action = JStr ''create_tournament''
             then respondCaught (createTournament_003 db newId customerId q)
           else if action = JStr ''get_tournament''
             then respondCaught (getTournament_proxy db customerId (param q ''id''), db)
           else if action = JStr ''update_tournament''
             then respondCaught (updateTournament db customerId (param q ''id'') q)
           else (Some \<lparr>status = 200, body = UnknownAction
               [''list_tournaments'', ''create_tournament'', ''get_tournament'',
                ''update_tournament'']\<rparr>, db))"

text \<open>
  The two handlers of part 001. The first lists and creates; the second only lists and
  answers an unknown action with status 400.
\<close>

definition handler_001 ::
  "(string \<Rightarrow> string) \<Rightarrow> string \<Rightarrow> store \<Rightarrow> Request \<Rightarrow> Response option \<times> store" where
  "handler_001 sign newId db req =
     (let q = query req in
      if \<not> verifyShopifyProxy sign q
      then (Some \<lparr>status = 401, body = InvalidSignature\<rparr>, db)
      else
        let customerId = (if truthy (param q ''logged_in_customer_id'')
              then param q ''logged_in_customer_id'' else JNull);
            action = (if truthy (param q ''action'') then param q ''action'' else JNull)
        in if \<not> truthy customerId then (Some \<lparr>status = 200, body = LoggedOut\<rparr>, db)
           else if action = JStr ''list_tournaments''
             then (Some \<lparr>status = 200, body = TournamentList (listTournaments db customerId)\<rparr>, db)
           else if action = JStr ''create_tournament''
             then respondCaught (createTournament_003 db newId customerId q)
           else (Some \<lparr>status = 200, body = UnknownAction
               [''list_tournaments'', ''create_tournament'']\<rparr>, db))"

definition handler_001_list :: "(string \<Rightarrow> string) \<Rightarrow> store \<Rightarrow> Request \<Rightarrow> Response" where
  "handler_001_list sign db req =
     (let q = query req in
      if \<not> verifyShopifyProxy sign q then \<lparr>status = 401, body = InvalidSignature\<rparr>
      else
        let customerId = (if truthy (param q ''logged_in_customer_id'')
              then param q ''logged_in_customer_id'' else JNull);
            action = (if truthy (param q ''action'') then param q ''action'' else JNull)
        in if \<not> truthy customerId then \<lparr>status = 200, body = LoggedOut\<rparr>
           else if action = JStr ''list_tournaments''
             then \<lparr>status = 200, body = TournamentList (listTournaments db customerId)\<rparr>
           else \<lparr>status = 400, body = UnknownAction []\<rparr>)"

text \<open>The first handler of part 003, which only tells whether a customer is logged in.\<close>

definition handler_003_session :: "(string \<Rightarrow> string) \<Rightarrow> Request \<Rightarrow> Response" where
  "handler_003_session sign req =
     (let q = query req in
      if \<not> verifyShopifyProxy sign q then \<lparr>status = 401, body = InvalidSignature\<rparr>
      else
        let customerId = (if truthy (param q ''logged_in_customer_id'')
              then param q ''logged_in_customer_id'' else JNull)
        in if \<not> truthy customerId then \<lparr>status = 200, body = LoggedOut\<rparr>
           else \<lparr>status = 200, body = LoggedIn customerId\<rparr>)"

text \<open>
  The handler of \<^verbatim>\<open>src/api/tournaments.js\<close>: \<^verbatim>\<open>GET\<close> only, and a request without a
  customer is answered with an empty list.
\<close>

definition handler_tournaments :: "(string \<Rightarrow> string) \<Rightarrow> store \<Rightarrow> Request \<Rightarrow> Response" where
  "handler_tournaments sign db req =
     (if http_method req \<noteq> ''GET'' then \<lparr>status = 405, body = MethodNotAllowed\<rparr>
      else if \<not> verifyShopifyProxy sign (query req)
        then \<lparr>status = 401, body = InvalidSignature\<rparr>
      else
        let customerId = param (query req) ''logged_in_customer_id'' in
        if \<not> truthy customerId then \<lparr>status = 200, body = TournamentList []\<rparr>
        else \<lparr>status = 200, body = TournamentList (listTournaments db customerId)\<rparr>)"

section \<open>The specification's vocabulary\<close>

subsection \<open>Round outcomes\<close>

text \<open>
  The classification of one round as the specification words it: a round with special
  \<^verbatim>\<open>BYE\<close> or \<^verbatim>\<open>NO_SHOW\<close> is a win, one with \<^verbatim>\<open>ID\<close> a tie; any other round is judged by
  its games whose result is not null: none reported gives no outcome, otherwise the
  numbers of \<^verbatim>\<open>W\<close> and of \<^verbatim>\<open>L\<close> are compared.
\<close>

datatype outcome = Win | Loss | Tie

definition reportedResults :: "Round \<Rightarrow> jsval list" where
  "reportedResults r = filter (\<lambda>v. v \<noteq> JNull) (map result (arrayOr (games r)))"

definition roundOutcome :: "Round \<Rightarrow> outcome option" where
  "roundOutcome r =
     (if special r = JStr ''BYE'' \<or> special r = JStr ''NO_SHOW'' then Some Win
      else if special r = JStr ''ID'' then Some Tie
      else if reportedResults r = [] then None
      else if count_list (reportedResults r) (JStr ''W'') > count_list (reportedResults r) (JStr ''L'')
        then Some Win
      else if count_list (reportedResults r) (JStr ''L'') > count_list (reportedResults r) (JStr ''W'')
        then Some Loss
      else Some Tie)"

definition tally :: "outcome \<Rightarrow> Round list \<Rightarrow> nat" where
  "tally oc R = length (filter (\<lambda>r. roundOutcome r = Some oc) R)"

definition scoreOfTally :: "Round list \<Rightarrow> Score" where
  "scoreOfTally R =
     \<lparr>wins = tally Win R, losses = tally Loss R, ties = tally Tie R,
      score_text = showNat (tally Win R) @ ''-'' @ showNat (tally Loss R) @ ''-''
        @ showNat (tally Tie R)\<rparr>"

text \<open>A non-special round none of whose games has a reported result.\<close>

definition unreportedRound :: "Round \<Rightarrow> bool" where
  "unreportedRound r =
     (special r \<noteq> JStr ''BYE'' \<and> special r \<noteq> JStr ''NO_SHOW'' \<and> special r \<noteq> JStr ''ID''
      \<and> reportedResults r = [])"

text \<open>
  A game result that is null or truthy. The results of the data model, \<^verbatim>\<open>W\<close>, \<^verbatim>\<open>L\<close>,
  \<^verbatim>\<open>T\<close> and null, which are the values \<^verbatim>\<open>normalizeResult\<close> produces and the handlers
  store, are so; the empty string, 0 and a missing result are not: they are not null, and
  the code reads them as not reported.
\<close>

definition resultInDomain :: "Game \<Rightarrow> bool" where
  "resultInDomain g = (result g = JNull \<or> truthy (result g))"

definition resultsInDomain :: "Round list \<Rightarrow> bool" where
  "resultsInDomain R = list_all (\<lambda>r. list_all resultInDomain (arrayOr (games r))) R"

text \<open>Sample rounds: \<^verbatim>\<open>{ special: s }\<close> alone, and a played round with the given results.\<close>

definition specialOnly :: "string \<Rightarrow> Round" where
  "specialOnly s = \<lparr>round_number = JUndefined, opponent_deck = None, games = None,
     special = JStr s\<rparr>"

definition playedRound :: "jsval list \<Rightarrow> Round" where
  "playedRound rs = \<lparr>round_number = JNum 1, opponent_deck = Some emptyDeck,
     games = Some (map (\<lambda>v. \<lparr>game = JNum 1, result = v, turn = JNull\<rparr>) rs),
     special = JNull\<rparr>"

definition sampleRounds :: "Round list" where
  "sampleRounds =
     [playedRound [JStr ''W'', JStr ''L'', JNull], playedRound [JNull, JNull, JNull],
      playedRound [JStr ''L'', JStr ''T'', JStr ''L''], specialOnly ''BYE'']"

subsection \<open>Case-insensitive matching\<close>

text \<open>
  Two characters are the same letter when they are equal or one is the capital of the
  other; two strings match case-insensitively when they do so position by position.
\<close>

definition sameLetter :: "char \<Rightarrow> char \<Rightarrow> bool" where
  "sameLetter a b =
     (a = b \<or> (a, b) \<in> set (zip lowerLetters upperLetters)
      \<or> (b, a) \<in> set (zip lowerLetters upperLetters))"

definition ciEqual :: "string \<Rightarrow> string \<Rightarrow> bool" where
  "ciEqual s t = list_all2 sameLetter s t"

definition canonChar :: "char \<Rightarrow> bool" where
  "canonChar u = (u \<in> set upperLetters \<or> u = CHR ''_'')"

text \<open>
  The contract of a normalizer over the enumeration \<open>enum\<close>, with the outcomes as the
  code returns them: \<^verbatim>\<open>undefined\<close> for an absent input, null for an input that clears
  the field, the canonical member for a case-insensitive match, and \<^verbatim>\<open>undefined\<close> again
  for anything else.
\<close>

definition threeWay :: "string list \<Rightarrow> jsval \<Rightarrow> jsval" where
  "threeWay enum v =
     (case v of
        JUndefined \<Rightarrow> JUndefined
      | JNull \<Rightarrow> JNull
      | JNum r \<Rightarrow> JUndefined
      | JStr s \<Rightarrow>
          if s = '''' \<or> s = ''null'' then JNull
          else (case find (ciEqual s) enum of Some c \<Rightarrow> JStr c | None \<Rightarrow> JUndefined))"

subsection \<open>The derived score and the validity of a patch\<close>

text \<open>A row whose \<^verbatim>\<open>score\<close> is the score of its \<^verbatim>\<open>rounds\<close>.\<close>

definition scoreConsistent :: "Tournament \<Rightarrow> bool" where
  "scoreConsistent t = (score t = ScoreOf (computeScore (arrayOpt (rounds t))))"

text \<open>A patch one of whose enumerated fields is present and does not normalize.\<close>

definition anyInvalid :: "query \<Rightarrow> bool" where
  "anyInvalid q =
     (invalid q ''special'' normalizeSpecial \<or> invalid q ''g1'' normalizeResult
      \<or> invalid q ''g2'' normalizeResult \<or> invalid q ''g3'' normalizeResult
      \<or> invalid q ''g1_turn'' normalizeTurn \<or> invalid q ''g2_turn'' normalizeTurn
      \<or> invalid q ''g3_turn'' normalizeTurn)"

text \<open>
  A round with its three game slots in place, and the keys of the query that
  \<^verbatim>\<open>updateRound\<close> reads as the patch.
\<close>

definition threeSlots :: "Round \<Rightarrow> bool" where
  "threeSlots r =
     (case games r of
        Some [a, b, c] \<Rightarrow> game a = JNum 1 \<and> game b = JNum 2 \<and> game c = JNum 3
      | _ \<Rightarrow> False)"

definition patchKeys :: "string list" where
  "patchKeys = [''op_p1'', ''op_p2'', ''special'', ''g1'', ''g2'', ''g3'', ''g1_turn'',
     ''g2_turn'', ''g3_turn'']"

subsection \<open>The numbering of the rounds\<close>

text \<open>The numbers 1 to n, in this order.\<close>

definition consecutive :: "nat \<Rightarrow> jsval list" where
  "consecutive n = map (\<lambda>k. JNum (of_nat k)) [1..<Suc n]"

text \<open>
  An array of rounds is numbered when its rounds carry the numbers 1 to its length, in
  order; a row when its \<^verbatim>\<open>rounds\<close> column holds such an array; the table when every row is.
\<close>

definition numbered :: "Round list \<Rightarrow> bool" where
  "numbered rs = (map round_number rs = consecutive (length rs))"

definition roundsNumbered :: "Tournament \<Rightarrow> bool" where
  "roundsNumbered t = (case rounds t of RoundsArray rs \<Rightarrow> numbered rs | _ \<Rightarrow> False)"

definition storeNumbered :: "store \<Rightarrow> bool" where
  "storeNumbered db = list_all roundsNumbered db"

text \<open>
  The rounds of a row, read as part 003 reads them
  (\<^verbatim>\<open>Array.isArray(t.rounds) ? t.rounds : []\<close>), and the round numbers of the tournament
  that a customer owns, in stored order.
\<close>

definition storedRounds :: "Tournament \<Rightarrow> Round list" where
  "storedRounds t = arrayOr (arrayOpt (rounds t))"

definition roundNumbers :: "store \<Rightarrow> jsval \<Rightarrow> jsval \<Rightarrow> jsval list option" where
  "roundNumbers db c tid =
     map_option (\<lambda>t. map round_number (storedRounds t)) (selectOwned db c tid)"

text \<open>
  The tables that the handlers produce: the table starts empty, and every request to one
  of the four handlers that write to it, with any query and any identifier for a new row,
  leads from one table to the next.
\<close>

inductive reachable :: "(string \<Rightarrow> string) \<Rightarrow> store \<Rightarrow> bool" for sign where
  start: "reachable sign []"
| by_001: "reachable sign db \<Longrightarrow> handler_001 sign newId db req = (resp, db') \<Longrightarrow>
     reachable sign db'"
| by_002: "reachable sign db \<Longrightarrow> handler_002 sign newId db req = (resp, db') \<Longrightarrow>
     reachable sign db'"
| by_003: "reachable sign db \<Longrightarrow> handler_003 sign newId db req = (resp, db') \<Longrightarrow>
     reachable sign db'"
| by_proxy: "reachable sign db \<Longrightarrow> handler_proxy sign newId db req = (resp, db') \<Longrightarrow>
     reachable sign db'"

text \<open>The table after \<open>k\<close> calls of \<^verbatim>\<open>addRound\<close> for one tournament.\<close>

definition addRounds_002 :: "nat \<Rightarrow> store \<Rightarrow> jsval \<Rightarrow> jsval \<Rightarrow> store" where
  "addRounds_002 k db c tid = ((\<lambda>d. snd (addRound_002 d c tid)) ^^ k) db"

definition addRounds_003 :: "nat \<Rightarrow> store \<Rightarrow> jsval \<Rightarrow> jsval \<Rightarrow> store" where
  "addRounds_003 k db c tid = ((\<lambda>d. snd (addRound_003 d c tid)) ^^ k) db"

subsection \<open>Sample rows and requests\<close>

text \<open>
  The tournament \<^verbatim>\<open>t1\<close> of customer \<^verbatim>\<open>c1\<close> with the given rounds and their score, as the
  handler of part 002 stores it.
\<close>

definition sampleRow :: "Round list \<Rightarrow> Tournament" where
  "sampleRow rs = \<lparr>t_id = ''t1'', customer_id = JStr ''c1'', tournament_name = JStr ''Open'',
     tournament_date = JStr ''2024-05-01'', format = JNull, tournament_type = JNull,
     final_result = JStr ''SinTop'', rounds = RoundsArray rs,
     score = ScoreOf (computeScore (Some rs))\<rparr>"

text \<open>The same tournament as the handler of part 003 stores it: the score is \<^verbatim>\<open>{}\<close>.\<close>

definition unscoredRow :: "Round list \<Rightarrow> Tournament" where
  "unscoredRow rs = \<lparr>t_id = ''t1'', customer_id = JStr ''c1'', tournament_name = JStr ''Open'',
     tournament_date = JStr ''2024-05-01'', format = JNull, tournament_type = JNull,
     final_result = JNull, rounds = RoundsArray rs, score = EmptyObject\<rparr>"

text \<open>Round 1 with its first game won, and the row that holds it under the old score.\<close>

definition wonRound :: Round where
  "wonRound = \<lparr>round_number = JNum 1, opponent_deck = Some emptyDeck,
     games = Some [\<lparr>game = JNum 1, result = JStr ''W'', turn = JNull\<rparr>,
                   \<lparr>game = JNum 2, result = JNull, turn = JNull\<rparr>,
                   \<lparr>game = JNum 3, result = JNull, turn = JNull\<rparr>],
     special = JNull\<rparr>"

definition staleRow :: Tournament where
  "staleRow = (sampleRow [newRound 1])\<lparr>rounds := RoundsArray [wonRound]\<rparr>"

text \<open>A signed request that names no customer.\<close>

definition sampleSign :: "string \<Rightarrow> string" where
  "sampleSign m = ''5f2c''"

definition anonymousRequest :: Request where
  "anonymousRequest = \<lparr>http_method = ''GET'',
     query = [(''signature'', ''5f2c''), (''id'', ''t1''), (''action'', ''add_round'')]\<rparr>"

text \<open>
  A table with one tournament of two rounds, as three requests leave it: the tournament
  is created, then one round is added through each handler.
\<close>

definition createRequest :: Request where
  "createRequest = \<lparr>http_method = ''POST'',
     query = [(''signature'', ''5f2c''), (''logged_in_customer_id'', ''c1''),
              (''action'', ''create_tournament''), (''tournament_name'', ''Open''),
              (''tournament_date'', ''2024-05-01'')]\<rparr>"

definition addRoundRequest :: Request where
  "addRoundRequest = \<lparr>http_method = ''POST'',
     query = [(''signature'', ''5f2c''), (''logged_in_customer_id'', ''c1''),
              (''action'', ''add_round''), (''id'', ''t1'')]\<rparr>"

definition sampleTable :: store where
  "sampleTable = snd (handler_003 sampleSign ''t2''
     (snd (handler_002 sampleSign ''t2''
        (snd (handler_002 sampleSign ''t1'' [] createRequest)) addRoundRequest)) addRoundRequest)"

text \<open>A row whose rounds are numbered 1 and 3, which no request produces.\<close>

definition gapRow :: Tournament where
  "gapRow = sampleRow [newRound 1, newRound 3]"

section \<open>Properties of the score calculator\<close>

subsection \<open>The loops compute the tally\<close>

lemma gamesLoop_domain:
  "list_all resultInDomain gs \<Longrightarrow>
   gamesLoop gs (w, l, h) =
     (w + count_list (filter (\<lambda>v. v \<noteq> JNull) (map result gs)) (JStr ''W''),
      l + count_list (filter (\<lambda>v. v \<noteq> JNull) (map result gs)) (JStr ''L''),
      h \<or> filter (\<lambda>v. v \<noteq> JNull) (map result gs) \<noteq> [])"
proof (induction gs arbitrary: w l h)
  case Nil
  then show ?case by simp
next
  case (Cons g gs)
  from Cons.prems have gs: "list_all resultInDomain gs" and "resultInDomain g"
    by simp_all
  then have g: "result g = JNull \<or> truthy (result g)"
    by (simp add: resultInDomain_def)
  from g Cons.IH [OF gs] show ?case
    by (auto simp: truthy_def)
qed

lemma dataModel_results_inDomain:
  "result g \<in> {JNull, JStr ''W'', JStr ''L'', JStr ''T''} \<Longrightarrow> resultInDomain g"
  by (auto simp: resultInDomain_def truthy_def)

lemma roundOutcome_code:
  assumes "list_all resultInDomain (arrayOr (games r))"
  shows "roundOutcome r =
     (let sp = orNull (special r) in
      if sp = JStr ''BYE'' \<or> sp = JStr ''NO_SHOW'' then Some Win
      else if sp = JStr ''ID'' then Some Tie
      else (case gamesLoop (arrayOr (games r)) (0, 0, False) of
          (w, l, hasAny) \<Rightarrow>
            if \<not> hasAny then None
            else if w > l then Some Win
            else if l > w then Some Loss
            else Some Tie))"
  using gamesLoop_domain [OF assms, of 0 0 False]
  by (cases "special r") (simp_all add: roundOutcome_def reportedResults_def orNull_def Let_def)

lemma roundsLoop_tally:
  "resultsInDomain R \<Longrightarrow>
   roundsLoop R (a, b, c) = (a + tally Win R, b + tally Loss R, c + tally Tie R)"
proof (induction R arbitrary: a b c)
  case Nil
  then show ?case by (simp add: tally_def)
next
  case (Cons r R)
  then have dom: "list_all resultInDomain (arrayOr (games r))" and rest: "resultsInDomain R"
    by (simp_all add: resultsInDomain_def)
  note IH = Cons.IH [OF rest]
  show ?case
    using roundOutcome_code [OF dom]
    by (auto simp: IH tally_def Let_def split: prod.splits if_splits)
qed

lemma showNat_digit: "n < 10 \<Longrightarrow> showNat n = [digitChar n]"
  by (simp add: showNat.simps)

lemma computeScore_specials:
  "computeScore (Some [specialOnly ''BYE'', specialOnly ''NO_SHOW'', specialOnly ''ID''])
     = \<lparr>wins = 2, losses = 0, ties = 1, score_text = ''2-0-1''\<rparr>"
  by (simp add: computeScore_def arrayOr_def specialOnly_def orNull_def showNat_digit
      digitChar_def)

lemma tally_Cons: "tally oc (r # R) = (if roundOutcome r = Some oc then 1 else 0) + tally oc R"
  by (simp add: tally_def)

lemma tally_Nil: "tally oc [] = 0"
  by (simp add: tally_def)

lemma roundOutcome_None: "roundOutcome r = None \<longleftrightarrow> unreportedRound r"
  by (auto simp: roundOutcome_def unreportedRound_def)

lemma tally_sum:
  "tally Win R + tally Loss R + tally Tie R = length (filter (\<lambda>r. \<not> unreportedRound r) R)"
proof (induction R)
  case Nil
  then show ?case by (simp add: tally_def)
next
  case (Cons r R)
  show ?case
  proof (cases "roundOutcome r")
    case None
    with Cons show ?thesis by (simp add: tally_Cons roundOutcome_None [symmetric])
  next
    case (Some oc)
    with Cons show ?thesis
      by (cases oc) (simp_all add: tally_Cons roundOutcome_None [symmetric])
  qed
qed

lemma filter_length_eq: "length (filter P xs) = length xs \<longleftrightarrow> list_all P xs"
proof -
  have "length (filter P xs) = length xs \<longleftrightarrow> length (filter (\<lambda>x. \<not> P x) xs) = 0"
    using sum_length_filter_compl [of P xs] by arith
  also have "\<dots> \<longleftrightarrow> list_all P xs"
    by (simp add: filter_empty_conv list_all_iff)
  finally show ?thesis .
qed

lemma sampleRounds_domain: "resultsInDomain sampleRounds"
  by (simp add: sampleRounds_def resultsInDomain_def resultInDomain_def playedRound_def
      specialOnly_def arrayOr_def truthy_def)

lemma sampleRounds_tally:
  "scoreOfTally sampleRounds = \<lparr>wins = 1, losses = 1, ties = 1, score_text = ''1-1-1''\<rparr>"
  by (simp add: sampleRounds_def scoreOfTally_def tally_Cons tally_Nil roundOutcome_def
      reportedResults_def playedRound_def specialOnly_def arrayOr_def showNat_digit
      digitChar_def)

lemma sampleRounds_unreported: "list_ex unreportedRound sampleRounds"
  by (simp add: sampleRounds_def unreportedRound_def reportedResults_def playedRound_def
      specialOnly_def arrayOr_def)

subsection \<open>Classification of the rounds\<close>

text \<open>
  Claim C1. On every round collection whose game results are null or truthy, as the
  results \<^verbatim>\<open>W\<close>, \<^verbatim>\<open>L\<close>, \<^verbatim>\<open>T\<close> and null of the data model are,
  \<^verbatim>\<open>computeScore\<close> counts each round by its own outcome: \<^verbatim>\<open>BYE\<close> and \<^verbatim>\<open>NO_SHOW\<close> are
  wins, \<^verbatim>\<open>ID\<close> is a tie, a round with no reported game result counts for nothing, and any
  other round is a win, a loss or a tie as its \<^verbatim>\<open>W\<close> results outnumber, are outnumbered by
  or equal its \<^verbatim>\<open>L\<close> results; the text is \<^verbatim>\<open>wins-losses-ties\<close>. The three special rounds
  \<^verbatim>\<open>BYE\<close>, \<^verbatim>\<open>NO_SHOW\<close>, \<^verbatim>\<open>ID\<close> score \<^verbatim>\<open>2-0-1\<close>.
\<close>

theorem computeScore_classifies:
  assumes "resultsInDomain R"
  shows "computeScore (Some R) = scoreOfTally R \<and>
         computeScore (Some [specialOnly ''BYE'', specialOnly ''NO_SHOW'', specialOnly ''ID''])
           = \<lparr>wins = 2, losses = 0, ties = 1, score_text = ''2-0-1''\<rparr>"
  using roundsLoop_tally [OF assms, of 0 0 0] computeScore_specials
  by (simp add: computeScore_def arrayOr_def scoreOfTally_def)

theorem computeScore_classifies_witness:
  "resultsInDomain sampleRounds \<and>
   computeScore (Some sampleRounds) = \<lparr>wins = 1, losses = 1, ties = 1, score_text = ''1-1-1''\<rparr>"
  using computeScore_classifies [OF sampleRounds_domain] sampleRounds_domain sampleRounds_tally
  by simp

subsection \<open>The tally never exceeds the number of rounds\<close>

text \<open>
  Claim C6. On every round collection \<open>R\<close> whose game results are null or truthy, the
  wins, losses and ties of \<^verbatim>\<open>computeScore(R)\<close> add up to at most the number of rounds,
  and to exactly that number if and only if no non-special round of \<open>R\<close> is without a
  reported game result.
\<close>

theorem computeScore_total_bound:
  assumes "resultsInDomain R"
  shows "wins (computeScore (Some R)) + losses (computeScore (Some R))
           + ties (computeScore (Some R)) \<le> length R \<and>
         (wins (computeScore (Some R)) + losses (computeScore (Some R))
           + ties (computeScore (Some R)) = length R
          \<longleftrightarrow> \<not> list_ex unreportedRound R)"
proof -
  have "roundsLoop R (0, 0, 0) = (tally Win R, tally Loss R, tally Tie R)"
    using roundsLoop_tally [OF assms, of 0 0 0] by simp
  then have s: "wins (computeScore (Some R)) + losses (computeScore (Some R))
      + ties (computeScore (Some R)) = length (filter (\<lambda>r. \<not> unreportedRound r) R)"
    by (simp add: computeScore_def arrayOr_def tally_sum)
  have "list_all (\<lambda>r. \<not> unreportedRound r) R \<longleftrightarrow> \<not> list_ex unreportedRound R"
    by (simp add: list_all_iff list_ex_iff)
  with s show ?thesis
    by (simp add: filter_length_eq)
qed

theorem computeScore_total_bound_witness:
  "resultsInDomain sampleRounds \<and> list_ex unreportedRound sampleRounds \<and>
   wins (computeScore (Some sampleRounds)) + losses (computeScore (Some sampleRounds))
     + ties (computeScore (Some sampleRounds)) < length sampleRounds"
  using computeScore_total_bound [OF sampleRounds_domain] sampleRounds_domain
    sampleRounds_unreported
  by simp

section \<open>Properties of the round sanitizer\<close>

text \<open>
  Claim C7. Whatever the games of a round were, \<^verbatim>\<open>sanitizeRounds\<close> replaces them by the
  three placeholder slots when the round's special is \<^verbatim>\<open>BYE\<close>, \<^verbatim>\<open>NO_SHOW\<close> or \<^verbatim>\<open>ID\<close>, and
  leaves them alone otherwise; a missing opponent deck becomes \<^verbatim>\<open>{ p1: null, p2: null }\<close>;
  the special and the round number are kept.
\<close>

theorem sanitizeRounds_forces_placeholders:
  assumes "i < length R"
  shows "length (sanitizeRounds (Some R)) = length R \<and>
    (if special (R ! i) = JStr ''BYE'' \<or> special (R ! i) = JStr ''NO_SHOW''
        \<or> special (R ! i) = JStr ''ID''
     then games (sanitizeRounds (Some R) ! i) =
        Some [\<lparr>game = JNum 1, result = JNull, turn = JNull\<rparr>,
              \<lparr>game = JNum 2, result = JNull, turn = JNull\<rparr>,
              \<lparr>game = JNum 3, result = JNull, turn = JNull\<rparr>]
     else games (sanitizeRounds (Some R) ! i) = games (R ! i)) \<and>
    (if opponent_deck (R ! i) = None
     then opponent_deck (sanitizeRounds (Some R) ! i) = Some \<lparr>p1 = JNull, p2 = JNull\<rparr>
     else opponent_deck (sanitizeRounds (Some R) ! i) = opponent_deck (R ! i)) \<and>
    special (sanitizeRounds (Some R) ! i) = special (R ! i) \<and>
    round_number (sanitizeRounds (Some R) ! i) = round_number (R ! i)"
  using assms
  by (auto simp: sanitizeRounds_def arrayOr_def sanitizeRound_def placeholderGames_def
      emptyDeck_def Let_def)

theorem sanitizeRounds_forces_placeholders_witness:
  "(0::nat) < length [\<lparr>round_number = JNum 1, opponent_deck = None,
       games = Some [\<lparr>game = JNum 1, result = JStr ''W'', turn = JStr ''FIRST''\<rparr>],
       special = JStr ''BYE''\<rparr>] \<and>
   sanitizeRounds (Some [\<lparr>round_number = JNum 1, opponent_deck = None,
       games = Some [\<lparr>game = JNum 1, result = JStr ''W'', turn = JStr ''FIRST''\<rparr>],
       special = JStr ''BYE''\<rparr>])
     = [\<lparr>round_number = JNum 1, opponent_deck = Some \<lparr>p1 = JNull, p2 = JNull\<rparr>,
       games = Some [\<lparr>game = JNum 1, result = JNull, turn = JNull\<rparr>,
                     \<lparr>game = JNum 2, result = JNull, turn = JNull\<rparr>,
                     \<lparr>game = JNum 3, result = JNull, turn = JNull\<rparr>],
       special = JStr ''BYE''\<rparr>]"
proof -
  let ?R = "[\<lparr>round_number = JNum 1, opponent_deck = None,
       games = Some [\<lparr>game = JNum 1, result = JStr ''W'', turn = JStr ''FIRST''\<rparr>],
       special = JStr ''BYE''\<rparr>]"
  have i: "(0::nat) < length ?R" by simp
  from sanitizeRounds_forces_placeholders [OF i]
  have "length (sanitizeRounds (Some ?R)) = 1"
    and "games (sanitizeRounds (Some ?R) ! 0) =
        Some [\<lparr>game = JNum 1, result = JNull, turn = JNull\<rparr>,
              \<lparr>game = JNum 2, result = JNull, turn = JNull\<rparr>,
              \<lparr>game = JNum 3, result = JNull, turn = JNull\<rparr>]"
    and "opponent_deck (sanitizeRounds (Some ?R) ! 0) = Some \<lparr>p1 = JNull, p2 = JNull\<rparr>"
    and "special (sanitizeRounds (Some ?R) ! 0) = JStr ''BYE''"
    and "round_number (sanitizeRounds (Some ?R) ! 0) = JNum 1"
    by simp_all
  then show ?thesis
    by (cases "sanitizeRounds (Some ?R)") auto
qed

lemma sanitizeRound_idem: "sanitizeRound (sanitizeRound r) = sanitizeRound r"
  by (auto simp: sanitizeRound_def Let_def split: option.splits)

text \<open>
  Claim C10. The round sanitizer is idempotent: sanitizing the rounds that
  \<^verbatim>\<open>sanitizeRounds\<close> returned gives the same rounds again, for every input, an array or
  not.
\<close>

theorem sanitizeRounds_idempotent:
  "sanitizeRounds (Some (sanitizeRounds R)) = sanitizeRounds R"
  by (simp add: sanitizeRounds_def arrayOr_def sanitizeRound_idem)

section \<open>Properties of the normalizers\<close>

subsection \<open>Upper case against a canonical name\<close>

lemma distinct_lowerLetters: "distinct lowerLetters"
  by (simp add: lowerLetters_def)

lemma length_letters: "length lowerLetters = length upperLetters"
  by (simp add: lowerLetters_def upperLetters_def)

lemma canon_not_lower: "canonChar u \<Longrightarrow> u \<notin> set lowerLetters"
  by (auto simp: canonChar_def lowerLetters_def upperLetters_def)

lemma toUpperChar_graph:
  "toUpperChar a = u \<longleftrightarrow>
     (a, u) \<in> set (zip lowerLetters upperLetters) \<or> (a \<notin> set lowerLetters \<and> a = u)"
proof -
  let ?Z = "zip lowerLetters upperLetters"
  have fst: "map fst ?Z = lowerLetters"
    using length_letters by simp
  then have d: "distinct (map fst ?Z)"
    using distinct_lowerLetters by simp
  show ?thesis
  proof (cases "map_of ?Z a")
    case None
    then have "a \<notin> set lowerLetters"
      using fst by (metis map_of_eq_None_iff set_map)
    moreover from this have "(a, u) \<notin> set ?Z"
      by (auto dest: set_zip_leftD)
    ultimately show ?thesis
      using None by (simp add: toUpperChar_def)
  next
    case (Some v)
    then have in_Z: "(a, v) \<in> set ?Z"
      by (rule map_of_SomeD)
    then have "a \<in> set lowerLetters"
      by (rule set_zip_leftD)
    moreover have "(a, u) \<in> set ?Z \<longleftrightarrow> v = u"
      using d Some in_Z by (metis map_of_is_SomeI option.inject)
    ultimately show ?thesis
      using Some by (simp add: toUpperChar_def)
  qed
qed

lemma toUpperChar_canon:
  assumes "canonChar u"
  shows "toUpperChar a = u \<longleftrightarrow> sameLetter a u"
proof -
  have u: "u \<notin> set lowerLetters"
    using assms by (rule canon_not_lower)
  then have "(u, a) \<notin> set (zip lowerLetters upperLetters)"
    by (auto dest: set_zip_leftD)
  then show ?thesis
    using u by (auto simp: toUpperChar_graph sameLetter_def)
qed

lemma toUpperCase_canon:
  "list_all canonChar c \<Longrightarrow> toUpperCase s = c \<longleftrightarrow> ciEqual s c"
proof (induction s arbitrary: c)
  case Nil
  then show ?case by (auto simp: toUpperCase_def ciEqual_def)
next
  case (Cons a s)
  show ?case
  proof (cases c)
    case Nil
    then show ?thesis by (simp add: toUpperCase_def ciEqual_def)
  next
    case (Cons u c')
    with Cons.prems have "canonChar u" "list_all canonChar c'" by simp_all
    with Cons.IH [of c'] Cons show ?thesis
      by (simp add: toUpperCase_def ciEqual_def toUpperChar_canon)
  qed
qed

lemma canon_result: "list_all canonChar ''W''" "list_all canonChar ''L''"
    "list_all canonChar ''T''"
  by (simp_all add: canonChar_def upperLetters_def)

lemma canon_turn: "list_all canonChar ''FIRST''" "list_all canonChar ''SECOND''"
  by (simp_all add: canonChar_def upperLetters_def)

lemma canon_special: "list_all canonChar ''ID''" "list_all canonChar ''NO_SHOW''"
    "list_all canonChar ''BYE''"
  by (simp_all add: canonChar_def upperLetters_def)

lemma normalizeResult_threeWay: "normalizeResult v = threeWay [''W'', ''L'', ''T''] v"
  by (cases v)
    (auto simp: normalizeResult_def threeWay_def upperOf_def
      toUpperCase_canon [OF canon_result(1), symmetric]
      toUpperCase_canon [OF canon_result(2), symmetric]
      toUpperCase_canon [OF canon_result(3), symmetric])

lemma normalizeTurn_threeWay: "normalizeTurn v = threeWay [''FIRST'', ''SECOND''] v"
  by (cases v)
    (auto simp: normalizeTurn_def threeWay_def upperOf_def
      toUpperCase_canon [OF canon_turn(1), symmetric]
      toUpperCase_canon [OF canon_turn(2), symmetric])

lemma normalizeSpecial_threeWay: "normalizeSpecial v = threeWay [''ID'', ''NO_SHOW'', ''BYE''] v"
  by (cases v)
    (auto simp: normalizeSpecial_def threeWay_def upperOf_def
      toUpperCase_canon [OF canon_special(1), symmetric]
      toUpperCase_canon [OF canon_special(2), symmetric]
      toUpperCase_canon [OF canon_special(3), symmetric])

lemmas upper_defs = upperOf_def toUpperCase_def toUpperChar_def lowerLetters_def
  upperLetters_def

subsection \<open>The contract of the three normalizers\<close>

text \<open>
  Claim C5, as amended. Each of \<^verbatim>\<open>normalizeResult\<close>, \<^verbatim>\<open>normalizeTurn\<close> and
  \<^verbatim>\<open>normalizeSpecial\<close> returns \<^verbatim>\<open>undefined\<close> for an absent input, null for null, the empty
  string and the string \<^verbatim>\<open>null\<close>, the canonical member of its enumeration for an input that
  matches it case-insensitively, and \<^verbatim>\<open>undefined\<close>, the value of the absent case, for any
  other input.
\<close>

theorem normalizers_three_way:
  "normalizeResult v = threeWay [''W'', ''L'', ''T''] v \<and>
   normalizeTurn v = threeWay [''FIRST'', ''SECOND''] v \<and>
   normalizeSpecial v = threeWay [''ID'', ''NO_SHOW'', ''BYE''] v"
  by (simp add: normalizeResult_threeWay normalizeTurn_threeWay normalizeSpecial_threeWay)

text \<open>
  Claim C5, as stated, fails: the outcome for an invalid input is the outcome for an
  absent one.
\<close>

theorem normalizers_invalid_is_absent:
  "normalizeResult (JStr ''X'') = normalizeResult JUndefined \<and>
   normalizeTurn (JStr ''X'') = normalizeTurn JUndefined \<and>
   normalizeSpecial (JStr ''X'') = normalizeSpecial JUndefined"
  by (simp add: normalizeResult_def normalizeTurn_def normalizeSpecial_def upper_defs)

subsection \<open>toIntOrNull\<close>

lemma toIntOrNull_absent:
  "toIntOrNull JUndefined = JNull" "toIntOrNull JNull = JNull" "toIntOrNull (JStr []) = JNull"
  by (simp_all add: toIntOrNull_def)

lemma toIntOrNull_not_a_number: "Number v = NaN \<Longrightarrow> toIntOrNull v = JNull"
  by (simp add: toIntOrNull_def)

lemma toIntOrNull_never_undefined: "toIntOrNull v \<noteq> JUndefined"
  by (simp add: toIntOrNull_def split: jsnum.splits)

lemmas number_defs = Number_def StringToNumber_def trim_def isWhiteSpace_def
  unsignedDecimal_def isDigit_def digitsIn_def digitOf_def exponentPart_def scale10_def
  radixOf_def nonDecimal_def negate_def doubleRange_def overflowBound_def underflowBound_def Let_def

lemma toIntOrNull_samples:
  "toIntOrNull (JStr ''3'') = JNum 3" "toIntOrNull (JStr ''abc'') = JNull"
  "toIntOrNull (JStr ''12px'') = JNull" "toIntOrNull (JStr ''1e309'') = JNull"
  "toIntOrNull (JStr '' 0x1F '') = JNum 31" "toIntOrNull (JStr ''-2.50e1'') = JNum (- 25)"
  "toIntOrNull (JStr ''Infinity'') = JNull"
  by (simp_all add: toIntOrNull_def number_defs)

text \<open>A text below half the least positive double is 0, as the code rounds it.\<close>

lemma toIntOrNull_underflow: "toIntOrNull (JStr ''1e-400'') = JNum 0"
  by (simp add: toIntOrNull_def number_defs)

text \<open>
  Claim C8 at the input \<^verbatim>\<open>"1.5"\<close>: the text parses as a number, and \<^verbatim>\<open>toIntOrNull\<close>
  returns that number, which is not an integer.
\<close>

theorem toIntOrNull_fraction:
  "toIntOrNull (JStr ''1.5'') = JNum (3 / 2) \<and> (3 / 2 :: rat) \<notin> \<int>"
proof -
  have "toIntOrNull (JStr ''1.5'') = JNum (3 / 2)"
    by (simp add: toIntOrNull_def number_defs)
  moreover have "(3 / 2 :: rat) \<notin> \<int>"
    by simp
  ultimately show ?thesis by simp
qed

section \<open>Properties of the round mutations\<close>

subsection \<open>The store's update\<close>

lemma arrayOpt_simps [simp]:
  "arrayOpt (RoundsArray rs) = Some rs" "arrayOpt RoundsFalsy = None"
  "arrayOpt RoundsOther = None"
  by (simp_all add: arrayOpt_def)

lemma orEmpty_simps [simp]:
  "orEmpty (RoundsArray rs) = Some rs" "orEmpty RoundsFalsy = Some []"
  "orEmpty RoundsOther = None"
  by (simp_all add: orEmpty_def)

lemma updateOwned_Some:
  "updateOwned db c tid f = (Some t, db') \<Longrightarrow>
   (\<exists>t0. t = f t0) \<and> db' = map (\<lambda>r. if owned c tid r then f r else r) db"
  by (auto simp: updateOwned_def split: option.splits)

lemma updateOwned_None: "updateOwned db c tid f = (None, db') \<Longrightarrow> db' = db"
  by (auto simp: updateOwned_def split: option.splits)

subsection \<open>The score after a write\<close>

text \<open>
  What \<^verbatim>\<open>persistRounds\<close> writes is consistent, and every action of the handler of part 002
  keeps a table of consistent rows consistent.
\<close>

lemma persistRounds_result:
  "persistRounds db c tid rs = (Ok t, db') \<Longrightarrow> scoreConsistent t"
  by (auto simp: persistRounds_def Let_def scoreConsistent_def split: prod.splits option.splits
      dest!: updateOwned_Some)

lemma persistRounds_store:
  "list_all scoreConsistent db \<Longrightarrow> list_all scoreConsistent (snd (persistRounds db c tid rs))"
  by (auto simp: persistRounds_def Let_def scoreConsistent_def list_all_iff
      split: prod.splits option.splits dest!: updateOwned_Some updateOwned_None)

lemma createTournament_002_store:
  "list_all scoreConsistent db \<Longrightarrow>
   list_all scoreConsistent (snd (createTournament_002 db newId c q))"
  by (simp add: createTournament_002_def Let_def scoreConsistent_def)

lemma addRound_002_store:
  "list_all scoreConsistent db \<Longrightarrow> list_all scoreConsistent (snd (addRound_002 db c tid))"
  by (simp add: addRound_002_def Let_def persistRounds_store split: opres.splits option.splits)

lemma updateRound_002_store:
  "list_all scoreConsistent db \<Longrightarrow> list_all scoreConsistent (snd (updateRound_002 db c tid q))"
  by (simp add: updateRound_002_def Let_def persistRounds_store split: opres.splits option.splits)

lemma setFinalResult_store:
  "list_all scoreConsistent db \<Longrightarrow>
   list_all scoreConsistent (snd (setFinalResult db c tid res))"
  by (auto simp: setFinalResult_def scoreConsistent_def list_all_iff
      split: prod.splits option.splits dest!: updateOwned_Some updateOwned_None)

text \<open>
  Claim C2 at the writes of the handler of part 003. Its \<^verbatim>\<open>createTournament\<close> stores the
  empty object as the score; its \<^verbatim>\<open>addRound\<close> and \<^verbatim>\<open>updateRound\<close> save through
  \<^verbatim>\<open>saveRounds\<close>, which writes the rounds alone. After game 1 of round 1 is reported as
  won, the stored rounds score \<^verbatim>\<open>1-0-0\<close> and the stored score is still \<^verbatim>\<open>{}\<close>; on a row
  that the handler of part 002 had stored with the score \<^verbatim>\<open>0-0-0\<close>, the score stays
  \<^verbatim>\<open>0-0-0\<close>.
\<close>

theorem saveRounds_leaves_score_stale:
  "createTournament_003 [] ''t1'' (JStr ''c1'')
       [(''tournament_name'', ''Open''), (''tournament_date'', ''2024-05-01'')]
     = (Ok (unscoredRow []), [unscoredRow []]) \<and>
   addRound_003 [unscoredRow []] (JStr ''c1'') (JStr ''t1'')
     = (Ok (unscoredRow [newRound 1]), [unscoredRow [newRound 1]]) \<and>
   updateRound_003 [unscoredRow [newRound 1]] (JStr ''c1'') (JStr ''t1'')
       [(''round_number'', ''1''), (''g1'', ''W'')]
     = (Ok (unscoredRow [wonRound]), [unscoredRow [wonRound]]) \<and>
   score (unscoredRow [wonRound]) = EmptyObject \<and>
   computeScore (arrayOpt (rounds (unscoredRow [wonRound])))
     = \<lparr>wins = 1, losses = 0, ties = 0, score_text = ''1-0-0''\<rparr> \<and>
   updateRound_003 [sampleRow [newRound 1]] (JStr ''c1'') (JStr ''t1'')
       [(''round_number'', ''1''), (''g1'', ''W'')]
     = (Ok staleRow, [staleRow]) \<and>
   score staleRow = ScoreOf \<lparr>wins = 0, losses = 0, ties = 0, score_text = ''0-0-0''\<rparr> \<and>
   computeScore (arrayOpt (rounds staleRow))
     = \<lparr>wins = 1, losses = 0, ties = 0, score_text = ''1-0-0''\<rparr>"
  by code_simp

subsection \<open>A patch with an invalid field\<close>

text \<open>
  \<^verbatim>\<open>updateRound\<close> of part 003 rejects a patch with an invalid field: the call answers an
  error and the table is the one it started from.
\<close>

lemma patchRound_003_rejects: "anyInvalid q \<Longrightarrow> \<exists>e. patchRound_003 q r = Inl e"
  by (auto simp: anyInvalid_def patchRound_003_def Let_def)

lemma patchRound_003_not_Inr: "anyInvalid q \<Longrightarrow> patchRound_003 q r \<noteq> Inr r'"
  using patchRound_003_rejects [of q r] by auto

lemma getTournamentOwned_003_not_Threw: "getTournamentOwned_003 db c tid \<noteq> Threw"
  by (simp add: getTournamentOwned_003_def split: option.splits)

lemma updateRound_003_rejects:
  assumes "anyInvalid q"
  shows "\<exists>e. updateRound_003 db c tid q = (Fail e, db)"
  using getTournamentOwned_003_not_Threw [of db c tid] patchRound_003_not_Inr [OF assms]
  by (cases "getTournamentOwned_003 db c tid")
     (auto simp: updateRound_003_def Let_def split: option.splits sum.splits)

text \<open>
  A patch without an invalid field is applied whole: every field that is present is
  assigned its normalized value and every field that is absent keeps its value, so the
  empty patch leaves a round with its three slots as it is.
\<close>

lemma byNum_threeSlots:
  assumes "game a = JNum 1" "game b = JNum 2" "game c = JNum 3"
  shows "byNum [a, b, c] 1 = a" "byNum [a, b, c] 2 = b" "byNum [a, b, c] 3 = c"
  using assms by (simp_all add: byNum_def Number_def)

lemma patchRound_003_applies:
  assumes "\<not> anyInvalid q" and "games r = Some [a, b, c]"
    and "game a = JNum 1" "game b = JNum 2" "game c = JNum 3"
  shows "patchRound_003 q r =
     Inr ((patchDeck_003 q r)
       \<lparr>special := applyField q ''special'' normalizeSpecial (special r),
        games := Some [patchGame_003 q ''g1'' ''g1_turn'' a, patchGame_003 q ''g2'' ''g2_turn'' b,
          patchGame_003 q ''g3'' ''g3_turn'' c]\<rparr>)"
proof -
  have g: "games (patchDeck_003 q r) = Some [a, b, c]"
    and s: "special (patchDeck_003 q r) = special r"
    using assms(2) by (simp_all add: patchDeck_003_def Let_def)
  show ?thesis
    using assms(1) g s byNum_threeSlots [OF assms(3-5)]
    by (simp add: anyInvalid_def patchRound_003_def Let_def)
qed

lemma applyField_absent: "param q k = JUndefined \<Longrightarrow> applyField q k f old = old"
  by (simp add: applyField_def)

lemma applyField_present: "param q k \<noteq> JUndefined \<Longrightarrow> applyField q k f old = f (param q k)"
  by (simp add: applyField_def)

lemma patchRound_003_empty_patch:
  assumes "list_all (\<lambda>k. param q k = JUndefined) patchKeys" and "threeSlots r"
  shows "patchRound_003 q r = Inr r"
proof -
  from assms(2) obtain a b c where g: "games r = Some [a, b, c]"
    and n: "game a = JNum 1" "game b = JNum 2" "game c = JNum 3"
    by (auto simp: threeSlots_def split: option.splits list.splits)
  from assms(1) have absent: "param q ''op_p1'' = JUndefined" "param q ''op_p2'' = JUndefined"
    "param q ''special'' = JUndefined" "param q ''g1'' = JUndefined"
    "param q ''g2'' = JUndefined" "param q ''g3'' = JUndefined"
    "param q ''g1_turn'' = JUndefined" "param q ''g2_turn'' = JUndefined"
    "param q ''g3_turn'' = JUndefined"
    by (simp_all add: patchKeys_def)
  then have v: "\<not> anyInvalid q"
    by (simp add: anyInvalid_def invalid_def)
  show ?thesis
    using patchRound_003_applies [OF v g n] absent g
    by (simp add: patchDeck_003_def patchGame_003_def applyField_def)
qed

text \<open>
  Claim C3 at a patch with an invalid field sent to the handler of part 002. With
  \<^verbatim>\<open>special=X\<close> its \<^verbatim>\<open>updateRound\<close> answers \<^verbatim>\<open>ok: true\<close> and stores the round with its
  special overwritten by \<^verbatim>\<open>undefined\<close>; with \<^verbatim>\<open>g1=X\<close> it answers \<^verbatim>\<open>ok: true\<close> and writes
  the rounds back. On the first patch the handler of part 003 answers
  \<^verbatim>\<open>Invalid special value\<close> and writes nothing.
\<close>

theorem updateRound_002_writes_invalid_patch:
  "invalid [(''round_number'', ''1''), (''special'', ''X'')] ''special'' normalizeSpecial \<and>
   updateRound_002 [sampleRow [newRound 1]] (JStr ''c1'') (JStr ''t1'')
       [(''round_number'', ''1''), (''special'', ''X'')]
     = (Ok (sampleRow [(newRound 1)\<lparr>special := JUndefined\<rparr>]),
        [sampleRow [(newRound 1)\<lparr>special := JUndefined\<rparr>]]) \<and>
   invalid [(''round_number'', ''1''), (''g1'', ''X'')] ''g1'' normalizeResult \<and>
   updateRound_002 [sampleRow [newRound 1]] (JStr ''c1'') (JStr ''t1'')
       [(''round_number'', ''1''), (''g1'', ''X'')]
     = (Ok (sampleRow [newRound 1]), [sampleRow [newRound 1]]) \<and>
   updateRound_003 [sampleRow [newRound 1]] (JStr ''c1'') (JStr ''t1'')
       [(''round_number'', ''1''), (''special'', ''X'')]
     = (Fail ''Invalid special value'', [sampleRow [newRound 1]])"
  by code_simp

subsection \<open>The number of a new round\<close>

text \<open>
  The greatest number among the rounds, as \<^verbatim>\<open>addRound\<close> of part 003 folds it: it is at
  least 0 and at least the number of every round.
\<close>

lemma foldl_max_ge:
  "m \<le> foldl (\<lambda>m r. case Number (round_number r) of Fin n \<Rightarrow> max m n | _ \<Rightarrow> m) m rs"
proof (induction rs arbitrary: m)
  case Nil
  then show ?case by simp
next
  case (Cons r rs)
  show ?case
  proof (cases "Number (round_number r)")
    case (Fin n)
    have "m \<le> max m n" by simp
    also have "\<dots> \<le> foldl (\<lambda>m r. case Number (round_number r) of Fin n \<Rightarrow> max m n | _ \<Rightarrow> m)
        (max m n) rs"
      by (rule Cons.IH)
    finally show ?thesis using Fin by simp
  qed (simp_all add: Cons.IH)
qed

lemma foldl_max_member:
  "r \<in> set rs \<Longrightarrow> Number (round_number r) = Fin n \<Longrightarrow>
   n \<le> foldl (\<lambda>m r. case Number (round_number r) of Fin n \<Rightarrow> max m n | _ \<Rightarrow> m) m rs"
proof (induction rs arbitrary: m)
  case Nil
  then show ?case by simp
next
  case (Cons x rs)
  show ?case
  proof (cases "r = x")
    case True
    have "n \<le> max m n" by simp
    also have "\<dots> \<le> foldl (\<lambda>m r. case Number (round_number r) of Fin n \<Rightarrow> max m n | _ \<Rightarrow> m)
        (max m n) rs"
      by (rule foldl_max_ge)
    finally show ?thesis using True Cons.prems by simp
  next
    case False
    with Cons.prems have "r \<in> set rs" by simp
    from Cons.IH [OF this Cons.prems(2)] show ?thesis by simp
  qed
qed

lemma maxRound_bounds:
  "0 \<le> maxRound rs"
  "r \<in> set rs \<Longrightarrow> Number (round_number r) = Fin n \<Longrightarrow> n \<le> maxRound rs"
  unfolding maxRound_def by (rule foldl_max_ge, rule foldl_max_member)

text \<open>Where the rounds are numbered 1 to n, the count and the maximum agree.\<close>

lemma maxRound_snoc:
  "maxRound (rs @ [r]) = (case Number (round_number r) of Fin n \<Rightarrow> max (maxRound rs) n
     | _ \<Rightarrow> maxRound rs)"
  unfolding maxRound_def by simp

lemma maxRound_consecutive:
  "map round_number rs = map (\<lambda>k. JNum (of_nat k)) [1..<Suc (length rs)] \<Longrightarrow>
   maxRound rs = of_nat (length rs)"
proof (induction rs rule: rev_induct)
  case Nil
  then show ?case by (simp add: maxRound_def)
next
  case (snoc r rs)
  from snoc.prems have "map round_number rs = map (\<lambda>k. JNum (of_nat k)) [1..<Suc (length rs)]"
    and r: "round_number r = JNum (of_nat (Suc (length rs)))"
    by simp_all
  with snoc.IH have "maxRound rs = of_nat (length rs)" by simp
  with r show ?case
    by (simp add: maxRound_snoc Number_def)
qed

text \<open>The numbers 1 to n: appending the next number keeps an array numbered.\<close>

lemma numbered_Nil: "numbered []"
  by (simp add: numbered_def consecutive_def)

lemma numbered_snoc:
  "numbered rs \<Longrightarrow> round_number r = JNum (of_nat (length rs) + 1) \<Longrightarrow> numbered (rs @ [r])"
  by (simp add: numbered_def consecutive_def)

lemma numbered_cong:
  "numbered rs \<Longrightarrow> map round_number rs' = map round_number rs \<Longrightarrow> numbered rs'"
proof -
  assume n: "numbered rs" and m: "map round_number rs' = map round_number rs"
  from m have "length rs' = length rs" by (rule map_eq_imp_length_eq)
  with n m show ?thesis by (simp add: numbered_def)
qed

lemma numbered_maxRound: "numbered rs \<Longrightarrow> maxRound rs = of_nat (length rs)"
  unfolding numbered_def consecutive_def by (rule maxRound_consecutive)


lemma numbered_consecutive:
  "numbered rs = (map round_number rs = consecutive (length rs))"
  by (simp add: numbered_def)

lemma length_consecutive: "length (consecutive n) = n"
  by (simp add: consecutive_def)

lemma consecutive_Suc: "consecutive (Suc n) = consecutive n @ [JNum (of_nat n + 1)]"
  by (simp add: consecutive_def)

lemma consecutive_numbered:
  assumes "map round_number rs = consecutive n"
  shows "numbered rs" and "length rs = n"
proof -
  from assms have "length (map round_number rs) = length (consecutive n)" by simp
  then show "length rs = n" by (simp add: length_consecutive)
  with assms show "numbered rs" by (simp add: numbered_consecutive)
qed

lemma consecutive_fresh: "JNum (of_nat n + 1) \<notin> set (consecutive n)"
  by (auto simp: consecutive_def)


subsection \<open>The row of one tournament\<close>

text \<open>
  \<^verbatim>\<open>.eq("id", id).eq("customer_id", customerId).single()\<close> finds the one row that matches,
  and an update rewrites this row and no other.
\<close>

lemma selectOwned_filter: "selectOwned db c tid = Some t \<Longrightarrow> filter (owned c tid) db = [t]"
  by (auto simp: selectOwned_def single_def split: list.splits)

lemma selectOwned_mem: "selectOwned db c tid = Some t \<Longrightarrow> t \<in> set db \<and> owned c tid t"
proof -
  assume "selectOwned db c tid = Some t"
  then have "filter (owned c tid) db = [t]" by (rule selectOwned_filter)
  then have "t \<in> set (filter (owned c tid) db)" by simp
  then show ?thesis by simp
qed

lemma filter_map_kept:
  assumes "\<And>r. P (f r) = P r"
  shows "filter P (map (\<lambda>r. if P r then f r else r) xs) = map f (filter P xs)"
  by (induction xs) (simp_all add: assms)

lemma updateOwned_selected:
  assumes "selectOwned db c tid = Some t0"
  shows "updateOwned db c tid f = (Some (f t0), map (\<lambda>r. if owned c tid r then f r else r) db)"
  using assms by (simp add: updateOwned_def selectOwned_def)

lemma selectOwned_updated:
  assumes "selectOwned db c tid = Some t0" and "\<And>r. owned c tid (f r) = owned c tid r"
  shows "selectOwned (map (\<lambda>r. if owned c tid r then f r else r) db) c tid = Some (f t0)"
  using selectOwned_filter [OF assms(1)] filter_map_kept [of "owned c tid" f db, OF assms(2)]
  by (simp add: selectOwned_def single_def)


lemma persistRounds_selected:
  assumes "selectOwned db c tid = Some t0"
  shows "persistRounds db c tid rs =
     (Ok (t0\<lparr>rounds := RoundsArray (sanitizeRounds (Some rs)),
             score := ScoreOf (computeScore (Some (sanitizeRounds (Some rs))))\<rparr>),
      map (\<lambda>r. if owned c tid r
                then r\<lparr>rounds := RoundsArray (sanitizeRounds (Some rs)),
                       score := ScoreOf (computeScore (Some (sanitizeRounds (Some rs))))\<rparr>
                else r) db)"
  by (simp add: persistRounds_def Let_def updateOwned_selected [OF assms])

lemma saveRounds_selected:
  assumes "selectOwned db c tid = Some t0"
  shows "saveRounds db c tid rs =
     (Ok (t0\<lparr>rounds := RoundsArray rs\<rparr>),
      map (\<lambda>r. if owned c tid r then r\<lparr>rounds := RoundsArray rs\<rparr> else r) db)"
  by (simp add: saveRounds_def updateOwned_selected [OF assms])


subsection \<open>Every request keeps the rounds numbered\<close>

text \<open>
  Neither \<^verbatim>\<open>sanitizeRounds\<close> nor a patch of \<^verbatim>\<open>updateRound\<close> touches \<^verbatim>\<open>round_number\<close>, and
  \<^verbatim>\<open>rounds[idx] = r\<close> replaces a round by one of the same number.
\<close>

lemma sanitizeRound_number: "round_number (sanitizeRound r) = round_number r"
  by (simp add: sanitizeRound_def Let_def)

lemma sanitizeRounds_numbers:
  "map round_number (sanitizeRounds (Some rs)) = map round_number rs"
  by (simp add: sanitizeRounds_def arrayOr_def sanitizeRound_number)

lemma patchRound_002_number: "patchRound_002 q r = Some r' \<Longrightarrow> round_number r' = round_number r"
  by (auto simp: patchRound_002_def setDeck_002_def setSpecial_002_def setG1_002_def Let_def
      Option.bind_eq_Some_conv split: if_splits option.splits list.splits)

lemma patchRound_003_number: "patchRound_003 q r = Inr r' \<Longrightarrow> round_number r' = round_number r"
  by (auto simp: patchRound_003_def patchDeck_003_def Let_def split: if_splits)

lemma findIndex_Some: "findIndex P xs = Some i \<Longrightarrow> i < length xs \<and> P (xs ! i)"
proof (induction xs arbitrary: i)
  case Nil
  then show ?case by simp
next
  case (Cons x xs)
  then show ?case by (auto split: if_splits)
qed

lemma map_update_same:
  "i < length rs \<Longrightarrow> round_number r' = round_number (rs ! i) \<Longrightarrow>
   map round_number (rs[i := r']) = map round_number rs"
  by (simp add: map_update list_update_same_conv)

lemma storeNumbered_updateOwned:
  assumes "storeNumbered db" and "\<And>r. roundsNumbered r \<Longrightarrow> roundsNumbered (f r)"
  shows "storeNumbered (snd (updateOwned db c tid f))"
  using assms by (auto simp: updateOwned_def storeNumbered_def list_all_iff split: option.splits)

lemma storeNumbered_selected:
  assumes "storeNumbered db" and "selectOwned db c tid = Some t"
  shows "\<exists>rs. rounds t = RoundsArray rs \<and> numbered rs"
proof -
  from selectOwned_mem [OF assms(2)] assms(1) have "roundsNumbered t"
    by (simp add: storeNumbered_def list_all_iff)
  then show ?thesis
    by (cases "rounds t") (simp_all add: roundsNumbered_def)
qed


lemma storeNumbered_insert:
  "storeNumbered db \<Longrightarrow> rounds row = RoundsArray [] \<Longrightarrow> storeNumbered (db @ [row])"
  by (simp add: storeNumbered_def roundsNumbered_def numbered_Nil)

lemma storeNumbered_createTournament_002:
  "storeNumbered db \<Longrightarrow> storeNumbered (snd (createTournament_002 db newId c q))"
  by (simp add: createTournament_002_def Let_def storeNumbered_insert)

lemma storeNumbered_createTournament_003:
  "storeNumbered db \<Longrightarrow> storeNumbered (snd (createTournament_003 db newId c q))"
  by (simp add: createTournament_003_def Let_def storeNumbered_insert)

lemma storeNumbered_persistRounds:
  assumes "storeNumbered db" and "numbered rs"
  shows "storeNumbered (snd (persistRounds db c tid rs))"
proof -
  have "numbered (sanitizeRounds (Some rs))"
    using assms(2) sanitizeRounds_numbers by (rule numbered_cong)
  then have "storeNumbered (snd (updateOwned db c tid
      (\<lambda>t. t\<lparr>rounds := RoundsArray (sanitizeRounds (Some rs)),
              score := ScoreOf (computeScore (Some (sanitizeRounds (Some rs))))\<rparr>)))"
    by (intro storeNumbered_updateOwned assms(1)) (simp add: roundsNumbered_def)
  then show ?thesis
    by (auto simp: persistRounds_def Let_def split: prod.splits option.splits)
qed

lemma storeNumbered_saveRounds:
  assumes "storeNumbered db" and "numbered rs"
  shows "storeNumbered (snd (saveRounds db c tid rs))"
proof -
  have "storeNumbered (snd (updateOwned db c tid (\<lambda>t. t\<lparr>rounds := RoundsArray rs\<rparr>)))"
    by (intro storeNumbered_updateOwned assms(1)) (simp add: roundsNumbered_def assms(2))
  then show ?thesis
    by (auto simp: saveRounds_def split: prod.splits option.splits)
qed

lemma getTournamentOwned_002_Ok:
  "getTournamentOwned_002 db c tid = Ok t \<Longrightarrow> selectOwned db c tid = Some t"
  by (simp add: getTournamentOwned_002_def split: option.splits)

lemma getTournamentOwned_003_Ok:
  "getTournamentOwned_003 db c tid = Ok t \<Longrightarrow> selectOwned db c tid = Some t"
  by (simp add: getTournamentOwned_003_def split: option.splits if_splits)

lemma storeNumbered_addRound_002:
  assumes "storeNumbered db"
  shows "storeNumbered (snd (addRound_002 db c tid))"
proof (cases "getTournamentOwned_002 db c tid")
  case (Ok t)
  from storeNumbered_selected [OF assms getTournamentOwned_002_Ok [OF Ok]]
  obtain rs where rs: "rounds t = RoundsArray rs" and n: "numbered rs" by blast
  have "numbered (rs @ [newRound (of_nat (length rs + 1))])"
    using n by (rule numbered_snoc) (simp add: newRound_def)
  then show ?thesis
    using Ok rs assms by (simp add: addRound_002_def Let_def storeNumbered_persistRounds)
qed (simp_all add: addRound_002_def assms)

lemma storeNumbered_addRound_003:
  assumes "storeNumbered db"
  shows "storeNumbered (snd (addRound_003 db c tid))"
proof (cases "getTournamentOwned_003 db c tid")
  case (Ok t)
  from storeNumbered_selected [OF assms getTournamentOwned_003_Ok [OF Ok]]
  obtain rs where rs: "rounds t = RoundsArray rs" and n: "numbered rs" by blast
  have "numbered (rs @ [newRound (maxRound rs + 1)])"
    using n by (rule numbered_snoc) (simp add: newRound_def numbered_maxRound [OF n])
  then show ?thesis
    using Ok rs assms by (simp add: addRound_003_def Let_def arrayOr_def storeNumbered_saveRounds)
qed (simp_all add: addRound_003_def assms)

lemma numbered_update:
  assumes "numbered rs" and "i < length rs" and "round_number r' = round_number (rs ! i)"
  shows "numbered (rs[i := r'])"
  using assms(1) map_update_same [OF assms(2,3)] by (rule numbered_cong)

lemma storeNumbered_updateRound_002:
  assumes "storeNumbered db"
  shows "storeNumbered (snd (updateRound_002 db c tid q))"
proof (cases "getTournamentOwned_002 db c tid")
  case (Ok t)
  from storeNumbered_selected [OF assms getTournamentOwned_002_Ok [OF Ok]]
  obtain rs where rs: "rounds t = RoundsArray rs" and n: "numbered rs" by blast
  show ?thesis
    using Ok rs assms n
    by (auto simp: updateRound_002_def Let_def storeNumbered_persistRounds numbered_update
        patchRound_002_number split: option.splits dest!: findIndex_Some)
qed (simp_all add: updateRound_002_def Let_def assms)

lemma storeNumbered_updateRound_003:
  assumes "storeNumbered db"
  shows "storeNumbered (snd (updateRound_003 db c tid q))"
proof (cases "getTournamentOwned_003 db c tid")
  case (Ok t)
  from storeNumbered_selected [OF assms getTournamentOwned_003_Ok [OF Ok]]
  obtain rs where rs: "rounds t = RoundsArray rs" and n: "numbered rs" by blast
  show ?thesis
    using Ok rs assms n
    by (auto simp: updateRound_003_def Let_def arrayOr_def storeNumbered_saveRounds
        numbered_update patchRound_003_number split: option.splits sum.splits
        dest!: findIndex_Some)
qed (simp_all add: updateRound_003_def Let_def assms)

lemma storeNumbered_setFinalResult:
  assumes "storeNumbered db"
  shows "storeNumbered (snd (setFinalResult db c tid res))"
proof -
  have "storeNumbered (snd (updateOwned db c tid (\<lambda>t. t\<lparr>final_result := res\<rparr>)))"
    by (intro storeNumbered_updateOwned assms) (simp add: roundsNumbered_def)
  then show ?thesis
    using assms by (auto simp: setFinalResult_def split: prod.splits option.splits)
qed

lemma rounds_setMeta: "rounds (foldl (setMeta q) t ks) = rounds t"
  by (induction ks arbitrary: t) (simp_all add: setMeta_def)

lemma storeNumbered_updateTournament:
  assumes "storeNumbered db"
  shows "storeNumbered (snd (updateTournament db c tid q))"
proof -
  have "storeNumbered (snd (updateOwned db c tid
      (\<lambda>t. foldl (setMeta q) t (filter (\<lambda>k. param q k \<noteq> JUndefined) allowedMeta))))"
    by (intro storeNumbered_updateOwned assms) (simp add: roundsNumbered_def rounds_setMeta)
  then show ?thesis
    using assms by (auto simp: updateTournament_def Let_def split: prod.splits option.splits)
qed

lemma snd_respond: "snd (respond x) = snd x"
  by (cases x) (simp add: respond_def split: opres.splits)

lemma snd_respondCaught: "snd (respondCaught x) = snd x"
  by (cases x) (simp add: respondCaught_def split: opres.splits)

lemmas storeNumbered_actions = storeNumbered_createTournament_002
  storeNumbered_createTournament_003 storeNumbered_addRound_002 storeNumbered_addRound_003
  storeNumbered_updateRound_002 storeNumbered_updateRound_003 storeNumbered_setFinalResult
  storeNumbered_updateTournament

lemma storeNumbered_handler_002:
  "storeNumbered db \<Longrightarrow> storeNumbered (snd (handler_002 sign newId db req))"
  by (simp add: handler_002_def Let_def snd_respond storeNumbered_actions)

lemma storeNumbered_handler_003:
  "storeNumbered db \<Longrightarrow> storeNumbered (snd (handler_003 sign newId db req))"
  by (simp add: handler_003_def Let_def snd_respondCaught storeNumbered_actions)

lemma storeNumbered_handler_proxy:
  "storeNumbered db \<Longrightarrow> storeNumbered (snd (handler_proxy sign newId db req))"
  by (simp add: handler_proxy_def Let_def snd_respondCaught storeNumbered_actions)

lemma storeNumbered_handler_001:
  "storeNumbered db \<Longrightarrow> storeNumbered (snd (handler_001 sign newId db req))"
  by (simp add: handler_001_def Let_def snd_respondCaught storeNumbered_actions)


text \<open>
  A new tournament has no rounds, and every action keeps the numbering, so every table
  that the handlers produce is numbered.
\<close>

lemma reachable_numbered: "reachable sign db \<Longrightarrow> storeNumbered db"
proof (induction rule: reachable.induct)
  case start
  then show ?case by (simp add: storeNumbered_def)
next
  case (by_001 db newId req resp db')
  from storeNumbered_handler_001 [OF by_001.IH, of sign newId req] by_001.hyps(2)
  show ?case by simp
next
  case (by_002 db newId req resp db')
  from storeNumbered_handler_002 [OF by_002.IH, of sign newId req] by_002.hyps(2)
  show ?case by simp
next
  case (by_003 db newId req resp db')
  from storeNumbered_handler_003 [OF by_003.IH, of sign newId req] by_003.hyps(2)
  show ?case by simp
next
  case (by_proxy db newId req resp db')
  from storeNumbered_handler_proxy [OF by_proxy.IH, of sign newId req] by_proxy.hyps(2)
  show ?case by simp
qed

lemma reachable_step_002:
  "reachable sign db \<Longrightarrow> reachable sign (snd (handler_002 sign newId db req))"
  by (rule reachable.by_002 [where resp = "fst (handler_002 sign newId db req)"]) simp_all

lemma reachable_step_003:
  "reachable sign db \<Longrightarrow> reachable sign (snd (handler_003 sign newId db req))"
  by (rule reachable.by_003 [where resp = "fst (handler_003 sign newId db req)"]) simp_all

lemma reachable_sampleTable: "reachable sampleSign sampleTable"
  unfolding sampleTable_def
  by (intro reachable_step_002 reachable_step_003 reachable.start)


subsection \<open>The number that addRound assigns\<close>

text \<open>
  One call on a numbered array: the call succeeds, the stored row is the one returned, and
  it holds the old rounds followed by one round whose number is the greatest number plus 1.
  Part 002 computes \<^verbatim>\<open>rounds.length + 1\<close>, part 003 the maximum plus 1.
\<close>

lemma addRound_002_step:
  assumes sel: "selectOwned db c tid = Some t0" and rs: "rounds t0 = RoundsArray rs"
    and n: "numbered rs"
  shows "\<exists>t1 rs1. fst (addRound_002 db c tid) = Ok t1 \<and>
     selectOwned (snd (addRound_002 db c tid)) c tid = Some t1 \<and>
     rounds t1 = RoundsArray rs1 \<and>
     map round_number rs1 = map round_number rs @ [JNum (maxRound rs + 1)]"
proof -
  let ?new = "rs @ [newRound (of_nat (length rs + 1))]"
  let ?f = "\<lambda>r. r\<lparr>rounds := RoundsArray (sanitizeRounds (Some ?new)),
      score := ScoreOf (computeScore (Some (sanitizeRounds (Some ?new))))\<rparr>"
  have a: "addRound_002 db c tid =
      (Ok (?f t0), map (\<lambda>r. if owned c tid r then ?f r else r) db)"
    using sel rs by (simp add: addRound_002_def getTournamentOwned_002_def Let_def
        persistRounds_selected [OF sel])
  have "\<And>r. owned c tid (?f r) = owned c tid r"
    by (simp add: owned_def)
  from selectOwned_updated [OF sel this]
  have s: "selectOwned (snd (addRound_002 db c tid)) c tid = Some (?f t0)"
    by (simp add: a)
  have "map round_number (sanitizeRounds (Some ?new))
      = map round_number rs @ [JNum (maxRound rs + 1)]"
    by (simp add: sanitizeRounds_numbers newRound_def numbered_maxRound [OF n])
  with a s show ?thesis by simp
qed

lemma addRound_003_step:
  assumes sel: "selectOwned db c tid = Some t0" and tid: "truthy tid"
  shows "\<exists>t1. fst (addRound_003 db c tid) = Ok t1 \<and>
     selectOwned (snd (addRound_003 db c tid)) c tid = Some t1 \<and>
     rounds t1 = RoundsArray (arrayOr (arrayOpt (rounds t0))
        @ [newRound (maxRound (arrayOr (arrayOpt (rounds t0))) + 1)])"
proof -
  let ?rs = "arrayOr (arrayOpt (rounds t0))"
  let ?f = "\<lambda>r. r\<lparr>rounds := RoundsArray (?rs @ [newRound (maxRound ?rs + 1)])\<rparr>"
  have a: "addRound_003 db c tid =
      (Ok (?f t0), map (\<lambda>r. if owned c tid r then ?f r else r) db)"
    using sel tid by (simp add: addRound_003_def getTournamentOwned_003_def Let_def
        saveRounds_selected [OF sel])
  have "\<And>r. owned c tid (?f r) = owned c tid r"
    by (simp add: owned_def)
  from selectOwned_updated [OF sel this]
  have "selectOwned (snd (addRound_003 db c tid)) c tid = Some (?f t0)"
    by (simp add: a)
  with a show ?thesis by simp
qed

lemma addRound_002_next:
  assumes sel: "selectOwned db c tid = Some t0" and rs: "rounds t0 = RoundsArray rs"
    and n: "map round_number rs = consecutive n"
  shows "\<exists>t1 rs1. selectOwned (snd (addRound_002 db c tid)) c tid = Some t1 \<and>
     rounds t1 = RoundsArray rs1 \<and> map round_number rs1 = consecutive (Suc n)"
proof -
  from consecutive_numbered [OF n] have num: "numbered rs" and len: "length rs = n" .
  from addRound_002_step [OF sel rs num] obtain t1 rs1 where
    "selectOwned (snd (addRound_002 db c tid)) c tid = Some t1" "rounds t1 = RoundsArray rs1"
    "map round_number rs1 = map round_number rs @ [JNum (maxRound rs + 1)]" by blast
  then show ?thesis
    using n numbered_maxRound [OF num] len by (simp add: consecutive_Suc)
qed

lemma addRound_003_next:
  assumes sel: "selectOwned db c tid = Some t0" and tid: "truthy tid"
    and rs: "rounds t0 = RoundsArray rs" and n: "map round_number rs = consecutive n"
  shows "\<exists>t1 rs1. selectOwned (snd (addRound_003 db c tid)) c tid = Some t1 \<and>
     rounds t1 = RoundsArray rs1 \<and> map round_number rs1 = consecutive (Suc n)"
proof -
  from consecutive_numbered [OF n] have num: "numbered rs" and len: "length rs = n" .
  from addRound_003_step [OF sel tid] obtain t1 where
    "selectOwned (snd (addRound_003 db c tid)) c tid = Some t1"
    "rounds t1 = RoundsArray (arrayOr (arrayOpt (rounds t0))
        @ [newRound (maxRound (arrayOr (arrayOpt (rounds t0))) + 1)])" by blast
  then show ?thesis
    using n rs numbered_maxRound [OF num] len
    by (simp add: consecutive_Suc arrayOr_def newRound_def)
qed

lemma addRounds_002_numbers:
  assumes "selectOwned db c tid = Some t0" and "rounds t0 = RoundsArray rs"
    and "map round_number rs = consecutive n"
  shows "\<exists>t1 rs1. selectOwned (addRounds_002 k db c tid) c tid = Some t1 \<and>
     rounds t1 = RoundsArray rs1 \<and> map round_number rs1 = consecutive (n + k)"
proof (induction k)
  case 0
  from assms show ?case by (simp add: addRounds_002_def)
next
  case (Suc k)
  then obtain t1 rs1 where "selectOwned (addRounds_002 k db c tid) c tid = Some t1"
    "rounds t1 = RoundsArray rs1" "map round_number rs1 = consecutive (n + k)" by blast
  from addRound_002_next [OF this] show ?case by (simp add: addRounds_002_def)
qed

lemma addRounds_003_numbers:
  assumes "selectOwned db c tid = Some t0" and "truthy tid" and "rounds t0 = RoundsArray rs"
    and "map round_number rs = consecutive n"
  shows "\<exists>t1 rs1. selectOwned (addRounds_003 k db c tid) c tid = Some t1 \<and>
     rounds t1 = RoundsArray rs1 \<and> map round_number rs1 = consecutive (n + k)"
proof (induction k)
  case 0
  from assms show ?case by (simp add: addRounds_003_def)
next
  case (Suc k)
  then obtain t1 rs1 where s: "selectOwned (addRounds_003 k db c tid) c tid = Some t1"
    and r: "rounds t1 = RoundsArray rs1" "map round_number rs1 = consecutive (n + k)" by blast
  from addRound_003_next [OF s assms(2) r] show ?case by (simp add: addRounds_003_def)
qed


lemma sampleTable_value:
  "sampleTable = [sampleRow [newRound 1, newRound 2]]"
  by code_simp

lemma sampleTable_selected:
  "selectOwned sampleTable (JStr ''c1'') (JStr ''t1'') = Some (sampleRow [newRound 1, newRound 2])"
  unfolding sampleTable_value by code_simp


text \<open>
  The table's history matters for part 002, which counts the rounds: on a row numbered
  1, 3 it appends a second round 3, where part 003 appends round 4.
\<close>

lemma addRound_on_gap:
  "roundNumbers (snd (addRound_002 [gapRow] (JStr ''c1'') (JStr ''t1''))) (JStr ''c1'') (JStr ''t1'')
     = Some [JNum 1, JNum 3, JNum 3]"
  "roundNumbers (snd (addRound_003 [gapRow] (JStr ''c1'') (JStr ''t1''))) (JStr ''c1'') (JStr ''t1'')
     = Some [JNum 1, JNum 3, JNum 4]"
  by code_simp+

text \<open>
  Claim C4. On every table that the handlers produce, and for every tournament in it, the
  stored rounds are numbered 1 to n, so that n is the greatest round number. \<^verbatim>\<open>addRound\<close>
  of part 002 and of part 003 then succeed, return the row they stored, and this row holds
  the old rounds followed by one new round whose number is the greatest number plus 1
  (rounds 1, 2 yield round 3), a number that no stored round carries. After \<open>k\<close> calls the
  numbers are 1 to n + k: they increase strictly and none is used twice. The bound is the
  greatest length of an array, below which all these numbers are exact in a double.
\<close>

theorem addRound_assigns_next_number:
  assumes "reachable sign db" and "selectOwned db c tid = Some t" and "truthy tid"
    and "length (storedRounds t) + k < 2 ^ 32"
  shows "rounds t = RoundsArray (storedRounds t) \<and>
     map round_number (storedRounds t) = consecutive (length (storedRounds t)) \<and>
     maxRound (storedRounds t) + 1 = of_nat (length (storedRounds t)) + 1 \<and>
     JNum (maxRound (storedRounds t) + 1) \<notin> set (map round_number (storedRounds t)) \<and>
     (\<exists>t'. fst (addRound_002 db c tid) = Ok t' \<and>
        selectOwned (snd (addRound_002 db c tid)) c tid = Some t' \<and>
        map round_number (storedRounds t')
          = map round_number (storedRounds t) @ [JNum (maxRound (storedRounds t) + 1)]) \<and>
     (\<exists>t'. fst (addRound_003 db c tid) = Ok t' \<and>
        selectOwned (snd (addRound_003 db c tid)) c tid = Some t' \<and>
        map round_number (storedRounds t')
          = map round_number (storedRounds t) @ [JNum (maxRound (storedRounds t) + 1)]) \<and>
     roundNumbers (addRounds_002 k db c tid) c tid
       = Some (consecutive (length (storedRounds t) + k)) \<and>
     roundNumbers (addRounds_003 k db c tid) c tid
       = Some (consecutive (length (storedRounds t) + k))"
proof -
  from storeNumbered_selected [OF reachable_numbered [OF assms(1)] assms(2)]
  obtain rs where rs: "rounds t = RoundsArray rs" and num: "numbered rs" by blast
  have st: "storedRounds t = rs"
    using rs by (simp add: storedRounds_def arrayOr_def)
  have con: "map round_number rs = consecutive (length rs)"
    using num by (simp add: numbered_consecutive)
  have mx: "maxRound rs = of_nat (length rs)"
    using num by (rule numbered_maxRound)
  have fresh: "JNum (maxRound rs + 1) \<notin> set (map round_number rs)"
    using consecutive_fresh [of "length rs"] by (simp add: con mx)
  from addRound_002_step [OF assms(2) rs num]
  have a2: "\<exists>t'. fst (addRound_002 db c tid) = Ok t' \<and>
        selectOwned (snd (addRound_002 db c tid)) c tid = Some t' \<and>
        map round_number (storedRounds t') = map round_number rs @ [JNum (maxRound rs + 1)]"
    by (auto simp: storedRounds_def arrayOr_def)
  from addRound_003_step [OF assms(2,3)]
  have a3: "\<exists>t'. fst (addRound_003 db c tid) = Ok t' \<and>
        selectOwned (snd (addRound_003 db c tid)) c tid = Some t' \<and>
        map round_number (storedRounds t') = map round_number rs @ [JNum (maxRound rs + 1)]"
    using rs by (auto simp: storedRounds_def arrayOr_def newRound_def)
  from addRounds_002_numbers [OF assms(2) rs con, of k]
  have k2: "roundNumbers (addRounds_002 k db c tid) c tid = Some (consecutive (length rs + k))"
    by (auto simp: roundNumbers_def storedRounds_def arrayOr_def)
  from addRounds_003_numbers [OF assms(2,3) rs con, of k]
  have k3: "roundNumbers (addRounds_003 k db c tid) c tid = Some (consecutive (length rs + k))"
    by (auto simp: roundNumbers_def storedRounds_def arrayOr_def)
  from rs con mx fresh a2 a3 k2 k3 show ?thesis
    unfolding st by simp
qed


theorem addRound_assigns_next_number_witness:
  "reachable sampleSign sampleTable \<and>
   roundNumbers sampleTable (JStr ''c1'') (JStr ''t1'') = Some [JNum 1, JNum 2] \<and>
   roundNumbers (addRounds_002 1 sampleTable (JStr ''c1'') (JStr ''t1'')) (JStr ''c1'') (JStr ''t1'')
     = Some [JNum 1, JNum 2, JNum 3] \<and>
   roundNumbers (addRounds_003 1 sampleTable (JStr ''c1'') (JStr ''t1'')) (JStr ''c1'') (JStr ''t1'')
     = Some [JNum 1, JNum 2, JNum 3]"
proof -
  have len: "length (storedRounds (sampleRow [newRound 1, newRound 2])) = 2"
    by code_simp
  have tid: "truthy (JStr ''t1'')"
    by code_simp
  have c3: "consecutive (2 + 1) = [JNum 1, JNum 2, JNum 3]"
    by code_simp
  have now: "roundNumbers sampleTable (JStr ''c1'') (JStr ''t1'') = Some [JNum 1, JNum 2]"
    unfolding sampleTable_value by code_simp
  have bound: "length (storedRounds (sampleRow [newRound 1, newRound 2])) + 1 < 2 ^ 32"
    unfolding len by simp
  from addRound_assigns_next_number
    [OF reachable_sampleTable sampleTable_selected tid bound]
  show ?thesis
    unfolding len c3 using reachable_sampleTable now by simp
qed

section \<open>Requests without a customer\<close>

lemma anonymous_valid: "verifyShopifyProxy sampleSign (query anonymousRequest)"
  by (simp add: verifyShopifyProxy_def anonymousRequest_def sampleSign_def param_def truthy_def)

lemma anonymous_absent: "param (query anonymousRequest) ''logged_in_customer_id'' = JUndefined"
  by (simp add: anonymousRequest_def param_def)

text \<open>
  Claim C9, as amended. A request with a valid signature and no
  \<^verbatim>\<open>logged_in_customer_id\<close> (or an empty one) is answered by every handler that routes
  by action, and by the session handler, before any action runs and with the table
  untouched, with status 200 and the body \<^verbatim>\<open>{ ok: true, logged_in: false }\<close>. The listing
  endpoint \<^verbatim>\<open>src/api/tournaments.js\<close> answers it with \<^verbatim>\<open>{ ok: true, tournaments: [] }\<close>
  when the method is \<^verbatim>\<open>GET\<close>, and with status 405 otherwise.
\<close>

theorem logged_out_short_circuit:
  assumes "verifyShopifyProxy sign (query req)"
    and "\<not> truthy (param (query req) ''logged_in_customer_id'')"
  shows "handler_proxy sign newId db req = (Some \<lparr>status = 200, body = LoggedOut\<rparr>, db) \<and>
         handler_002 sign newId db req = (Some \<lparr>status = 200, body = LoggedOut\<rparr>, db) \<and>
         handler_003 sign newId db req = (Some \<lparr>status = 200, body = LoggedOut\<rparr>, db) \<and>
         handler_001 sign newId db req = (Some \<lparr>status = 200, body = LoggedOut\<rparr>, db) \<and>
         handler_001_list sign db req = \<lparr>status = 200, body = LoggedOut\<rparr> \<and>
         handler_003_session sign req = \<lparr>status = 200, body = LoggedOut\<rparr> \<and>
         handler_tournaments sign db req =
           (if http_method req = ''GET'' then \<lparr>status = 200, body = TournamentList []\<rparr>
            else \<lparr>status = 405, body = MethodNotAllowed\<rparr>)"
  using assms
  by (simp add: handler_proxy_def handler_002_def handler_003_def handler_001_def
      handler_001_list_def handler_003_session_def handler_tournaments_def Let_def truthy_def)

theorem logged_out_short_circuit_witness:
  "verifyShopifyProxy sampleSign (query anonymousRequest) \<and>
   \<not> truthy (param (query anonymousRequest) ''logged_in_customer_id'') \<and>
   handler_003 sampleSign ''t2'' [sampleRow []] anonymousRequest
     = (Some \<lparr>status = 200, body = LoggedOut\<rparr>, [sampleRow []])"
proof -
  have a: "\<not> truthy (param (query anonymousRequest) ''logged_in_customer_id'')"
    by (simp add: anonymous_absent truthy_def)
  from logged_out_short_circuit [OF anonymous_valid a, of "''t2''" "[sampleRow []]"]
  show ?thesis using anonymous_valid a by simp
qed

text \<open>
  Claim C9, as stated, fails at the handler of \<^verbatim>\<open>src/api/tournaments.js\<close>: the signed
  \<^verbatim>\<open>GET\<close> request without a customer gets the empty list of tournaments, not
  \<^verbatim>\<open>{ ok: true, logged_in: false }\<close>.
\<close>

theorem tournaments_endpoint_answers_empty_list:
  "verifyShopifyProxy sampleSign (query anonymousRequest) \<and>
   param (query anonymousRequest) ''logged_in_customer_id'' = JUndefined \<and>
   handler_tournaments sampleSign [sampleRow []] anonymousRequest
     = \<lparr>status = 200, body = TournamentList []\<rparr> \<and>
   body (handler_tournaments sampleSign [sampleRow []] anonymousRequest) \<noteq> LoggedOut"
proof -
  have "handler_tournaments sampleSign [sampleRow []] anonymousRequest
     = \<lparr>status = 200, body = TournamentList []\<rparr>"
    using anonymous_valid anonymous_absent
    by (simp add: handler_tournaments_def anonymousRequest_def truthy_def)
  then show ?thesis
    using anonymous_valid anonymous_absent by simp
qed

end
